theory Spec2Isabelle
  imports Complex_Main "HOL-Library.AList"
begin

section \<open>JavaScript values used by the IoT service\<close>

text \<open>
  Inbound broker payloads are decoded with \<^verbatim>\<open>JSON.parse\<close>, so a message is an arbitrary
  JSON value. JSON numbers are IEEE doubles in the source; they are modelled as rationals,
  which agrees with the source on every test the service performs on them (zero or
  non-zero, strict equality). A JavaScript \<^verbatim>\<open>undefined\<close> is \<open>None\<close> of an option type.
\<close>

datatype json =
    JNull
  | JBool bool
  | JNum rat
  | JStr string
  | JArr "json list"
  | JObj "(string \<times> json) list"

datatype js_error =
    TypeError
  | ReferenceError string
  | SyntaxError
  | LibraryError string

text \<open>JavaScript truthiness of a JSON value, as tested by \<^verbatim>\<open>if (x)\<close> and \<^verbatim>\<open>x || y\<close>.\<close>

fun js_truthy :: "json \<Rightarrow> bool" where
  "js_truthy JNull = False"
| "js_truthy (JBool b) = b"
| "js_truthy (JNum n) = (n \<noteq> 0)"
| "js_truthy (JStr s) = (s \<noteq> [])"
| "js_truthy (JArr xs) = True"
| "js_truthy (JObj kvs) = True"

fun truthy :: "json option \<Rightarrow> bool" where
  "truthy None = False"
| "truthy (Some v) = js_truthy v"

text \<open>
  Property read \<^verbatim>\<open>message.name\<close>. Reading a property of \<^verbatim>\<open>null\<close> throws a TypeError; an
  object yields the member or \<^verbatim>\<open>undefined\<close>; numbers, booleans, strings and arrays have none
  of the property names the service reads (battery, signal, location, status, firmware),
  so the read yields \<^verbatim>\<open>undefined\<close>.
\<close>

fun js_get :: "json \<Rightarrow> string \<Rightarrow> js_error + json option" where
  "js_get JNull name = Inl TypeError"
| "js_get (JObj kvs) name = Inr (map_of kvs name)"
| "js_get (JBool b) name = Inr None"
| "js_get (JNum n) name = Inr None"
| "js_get (JStr s) name = Inr None"
| "js_get (JArr xs) name = Inr None"

text \<open>\<^verbatim>\<open>a || b\<close>: with a second operand that may be undefined, and with one that is a value.\<close>

definition js_or :: "json option \<Rightarrow> json option \<Rightarrow> json option" where
  "js_or a b = (if truthy a then a else b)"

definition js_or_else :: "json option \<Rightarrow> json \<Rightarrow> json" where
  "js_or_else a b = (case a of None \<Rightarrow> b | Some v \<Rightarrow> if js_truthy v then v else b)"

section \<open>State of the IoT service module\<close>

text \<open>
  A map key is whatever \<^verbatim>\<open>topicParts[1]\<close> evaluates to: a string, or \<^verbatim>\<open>undefined\<close> when the
  topic has fewer than two levels.
\<close>

type_synonym device_key = "string option"

text \<open>A reading of \<^verbatim>\<open>new Date().toISOString()\<close>.\<close>

type_synonym timestamp = nat

record device =
  dev_id :: device_key
  status :: json
  lastSeen :: timestamp
  batteryLevel :: "json option"
  signalStrength :: "json option"
  location :: "json option"
  firmware :: "json option"

record telemetry =
  t_value :: json
  t_timestamp :: timestamp

text \<open>
  The payload handed to \<^verbatim>\<open>iotEvents.emit\<close>: the identity together with the object that is
  spread after it.
\<close>

datatype event_payload =
    TelemetryEvent device_key telemetry
  | StatusEvent device_key json
  | NfcScanEvent device_key json

text \<open>
  A listener on the event emitter. The only listeners the repository registers are the
  three closures of one event-stream request, each of which writes a frame of a fixed
  event type onto that request's response.
\<close>

datatype listener = SseListener nat string

datatype log_line =
    LogMessage string json
  | LogParseError js_error
  | LogNfcScan device_key json

record iot_state =
  iotDevices :: "(device_key \<times> device) list"
  sensorData :: "(device_key \<times> telemetry list) list"
  listeners :: "string \<Rightarrow> listener list"
  emitted :: "(string \<times> event_payload) list"
  written :: "(nat \<times> string \<times> event_payload) list"
  console :: "log_line list"

text \<open>The module as loaded: two empty maps and an emitter with no listener.\<close>

definition initial_state :: iot_state where
  "initial_state =
     \<lparr>iotDevices = [], sensorData = [], listeners = (\<lambda>name. []),
      emitted = [], written = [], console = []\<rparr>"

section \<open>The event emitter\<close>

text \<open>
  \<^verbatim>\<open>emit(name, payload)\<close> calls the listeners registered under the name, in registration
  order. A stream listener writes one frame of its own event type to its response.
  The field \<open>emitted\<close> records every call of \<^verbatim>\<open>emit\<close>, with or without listeners.
\<close>

fun deliver :: "event_payload \<Rightarrow> listener \<Rightarrow> nat \<times> string \<times> event_payload" where
  "deliver p (SseListener c type) = (c, type, p)"

definition emit :: "string \<Rightarrow> event_payload \<Rightarrow> iot_state \<Rightarrow> iot_state" where
  "emit name p s =
     s\<lparr>emitted := emitted s @ [(name, p)],
       written := written s @ map (deliver p) (listeners s name)\<rparr>"

section \<open>Device registry and telemetry store\<close>

text \<open>
  \<^verbatim>\<open>updateDevice(deviceId, message)\<close>. The record is created when the key is absent, the
  last-seen time is refreshed, and each of battery, signal and location is copied when the
  message's value is truthy. A property read on a \<^verbatim>\<open>null\<close> message throws after the record
  was created and its last-seen time set; the mutation stays. All readings of the clock
  within one synchronous handler run are taken to be the same instant \<open>now\<close>.
\<close>

definition updateDevice ::
  "timestamp \<Rightarrow> device_key \<Rightarrow> json \<Rightarrow> iot_state \<Rightarrow> js_error option \<times> iot_state" where
  "updateDevice now deviceId message s =
     (let created = \<lparr>dev_id = deviceId, status = JStr ''online'', lastSeen = now,
                     batteryLevel = None, signalStrength = None, location = None,
                     firmware = None\<rparr>;
          (devs0, d0) = (case map_of (iotDevices s) deviceId of
                           None \<Rightarrow> (AList.update deviceId created (iotDevices s), created)
                         | Some d \<Rightarrow> (iotDevices s, d));
          d1 = d0\<lparr>lastSeen := now\<rparr>
      in case js_get message ''battery'' of
           Inl e \<Rightarrow> (Some e, s\<lparr>iotDevices := AList.update deviceId d1 devs0\<rparr>)
         | Inr battery \<Rightarrow>
            (let d2 = (if truthy battery then d1\<lparr>batteryLevel := battery\<rparr> else d1)
             in case js_get message ''signal'' of
                  Inl e \<Rightarrow> (Some e, s\<lparr>iotDevices := AList.update deviceId d2 devs0\<rparr>)
                | Inr signal \<Rightarrow>
                   (let d3 = (if truthy signal then d2\<lparr>signalStrength := signal\<rparr> else d2)
                    in case js_get message ''location'' of
                         Inl e \<Rightarrow> (Some e, s\<lparr>iotDevices := AList.update deviceId d3 devs0\<rparr>)
                       | Inr loc \<Rightarrow>
                          (let d4 = (if truthy loc then d3\<lparr>location := loc\<rparr> else d3)
                           in (None, s\<lparr>iotDevices := AList.update deviceId d4 devs0\<rparr>)))))"

text \<open>
  \<^verbatim>\<open>storeSensorData(deviceId, data)\<close>: push the sample, drop the first element when the
  length exceeds 200, then emit the telemetry event.
\<close>

definition storeSensorData ::
  "timestamp \<Rightarrow> device_key \<Rightarrow> json \<Rightarrow> iot_state \<Rightarrow> iot_state" where
  "storeSensorData now deviceId data s =
     (let (sd0, deviceHistory) = (case map_of (sensorData s) deviceId of
                                    None \<Rightarrow> (AList.update deviceId [] (sensorData s), [])
                                  | Some h \<Rightarrow> (sensorData s, h));
          sample = \<lparr>t_value = data, t_timestamp = now\<rparr>;
          pushed = deviceHistory @ [sample];
          bounded = (if length pushed > 200 then tl pushed else pushed)
      in emit ''telemetry'' (TelemetryEvent deviceId sample)
           (s\<lparr>sensorData := AList.update deviceId bounded sd0\<rparr>))"

text \<open>
  \<^verbatim>\<open>updateDeviceStatus(deviceId, status)\<close>: when the device exists, its status becomes
  \<^verbatim>\<open>status.status || 'online'\<close> and its firmware \<^verbatim>\<open>status.firmware || device.firmware\<close>;
  the status event is emitted in either case.
\<close>

definition updateDeviceStatus ::
  "device_key \<Rightarrow> json \<Rightarrow> iot_state \<Rightarrow> js_error option \<times> iot_state" where
  "updateDeviceStatus deviceId st s =
     (case map_of (iotDevices s) deviceId of
        None \<Rightarrow> (None, emit ''status'' (StatusEvent deviceId st) s)
      | Some d \<Rightarrow>
         (case js_get st ''status'' of
            Inl e \<Rightarrow> (Some e, s)
          | Inr sv \<Rightarrow>
             (let d1 = d\<lparr>status := js_or_else sv (JStr ''online'')\<rparr>
              in case js_get st ''firmware'' of
                   Inl e \<Rightarrow> (Some e, s\<lparr>iotDevices := AList.update deviceId d1 (iotDevices s)\<rparr>)
                 | Inr fw \<Rightarrow>
                    (let d2 = d1\<lparr>firmware := js_or fw (firmware d1)\<rparr>
                     in (None, emit ''status'' (StatusEvent deviceId st)
                                 (s\<lparr>iotDevices := AList.update deviceId d2 (iotDevices s)\<rparr>))))))"

definition handleNFCScan :: "device_key \<Rightarrow> json \<Rightarrow> iot_state \<Rightarrow> iot_state" where
  "handleNFCScan readerId scanData s =
     emit ''nfc_scan'' (NfcScanEvent readerId scanData)
       (s\<lparr>console := console s @ [LogNfcScan readerId scanData]\<rparr>)"

section \<open>Queries\<close>

definition getDeviceStatus :: "device_key \<Rightarrow> iot_state \<Rightarrow> device option" where
  "getDeviceStatus deviceId s = map_of (iotDevices s) deviceId"

definition getAllDevices :: "iot_state \<Rightarrow> device list" where
  "getAllDevices s = map snd (iotDevices s)"

text \<open>
  The \<open>limit\<close> argument of \<^verbatim>\<open>getSensorHistory\<close>: omitted (the default 50 applies), an integer,
  or the \<^verbatim>\<open>NaN\<close> that \<^verbatim>\<open>parseInt\<close> gives for a non-numeric query string.
\<close>

datatype js_limit = LimUndefined | LimNaN | LimInt int

text \<open>
  \<^verbatim>\<open>xs.slice(start)\<close> for an integer start: a negative start counts from the end and is
  clamped at the beginning, a non-negative one is clamped at the length.
\<close>

definition js_slice :: "int \<Rightarrow> 'a list \<Rightarrow> 'a list" where
  "js_slice start xs =
     (let len = int (length xs);
          k = (if start < 0 then max (len + start) 0 else min start len)
      in drop (nat k) xs)"

text \<open>\<^verbatim>\<open>-limit\<close> converted to an integer index: \<^verbatim>\<open>NaN\<close> becomes 0.\<close>

fun neg_limit :: "js_limit \<Rightarrow> int" where
  "neg_limit LimUndefined = - 50"
| "neg_limit LimNaN = 0"
| "neg_limit (LimInt n) = - n"

definition getSensorHistory :: "device_key \<Rightarrow> js_limit \<Rightarrow> iot_state \<Rightarrow> telemetry list" where
  "getSensorHistory deviceId limit s =
     (let deviceHistory = (case map_of (sensorData s) deviceId of
                             None \<Rightarrow> [] | Some h \<Rightarrow> h)
      in js_slice (neg_limit limit) deviceHistory)"

text \<open>
  The average battery level of the health report: \<^verbatim>\<open>null\<close>, a rounded number, or the result
  of JavaScript's \<^verbatim>\<open>+\<close> having switched to string concatenation because a stored battery
  level is a string, an array or an object; that last value is not computed here.
\<close>

datatype avg_battery = AvgNull | AvgNumber int | AvgFromString

record network_health =
  totalDevices :: nat
  onlineDevices :: nat
  offlineDevices :: nat
  onlinePercentage :: rat
  avgBatteryLevel :: avg_battery
  h_timestamp :: timestamp

text \<open>\<^verbatim>\<open>sum + (d.batteryLevel || 0)\<close> while the sum is still a number.\<close>

fun add_battery :: "rat option \<Rightarrow> device \<Rightarrow> rat option" where
  "add_battery None d = None"
| "add_battery (Some acc) d =
     (case js_or_else (batteryLevel d) (JNum 0) of
        JNum n \<Rightarrow> Some (acc + n)
      | JBool b \<Rightarrow> Some (acc + (if b then 1 else 0))
      | JNull \<Rightarrow> Some acc
      | _ \<Rightarrow> None)"

text \<open>\<^verbatim>\<open>Math.round\<close>: the nearest integer, a half rounded up.\<close>

definition math_round :: "rat \<Rightarrow> int" where
  "math_round q = \<lfloor>q + 1 / 2\<rfloor>"

definition getNetworkHealth :: "timestamp \<Rightarrow> iot_state \<Rightarrow> network_health" where
  "getNetworkHealth now s =
     (let devices = map snd (iotDevices s)
      in if length devices = 0
         then \<lparr>totalDevices = 0, onlineDevices = 0, offlineDevices = 0,
               onlinePercentage = 100, avgBatteryLevel = AvgNull, h_timestamp = now\<rparr>
         else
           (let online = length (filter (\<lambda>d. status d = JStr ''online'') devices);
                totalBattery = foldl add_battery (Some 0) devices;
                devicesWithBattery = length (filter (\<lambda>d. batteryLevel d \<noteq> None) devices)
            in \<lparr>totalDevices = length devices,
                onlineDevices = online,
                offlineDevices = length devices - online,
                onlinePercentage = (of_nat online / of_nat (length devices)) * 100,
                avgBatteryLevel =
                  (if devicesWithBattery > 0
                   then (case totalBattery of
                           None \<Rightarrow> AvgFromString
                         | Some tb \<Rightarrow> AvgNumber (math_round (tb / of_nat devicesWithBattery)))
                   else AvgNull),
                h_timestamp = now\<rparr>))"

section \<open>The broker message handler\<close>

text \<open>\<^verbatim>\<open>topic.split('/')\<close>: the levels of a topic; an empty topic has one empty level.\<close>

fun split_on :: "char \<Rightarrow> string \<Rightarrow> string list" where
  "split_on c [] = [[]]"
| "split_on c (x # xs) =
     (if x = c then [] # split_on c xs
      else (case split_on c xs of
              [] \<Rightarrow> [[x]]
            | w # ws \<Rightarrow> (x # w) # ws))"

text \<open>Array indexing \<^verbatim>\<open>xs[i]\<close>, which is \<^verbatim>\<open>undefined\<close> out of range.\<close>

definition js_index :: "'a list \<Rightarrow> nat \<Rightarrow> 'a option" where
  "js_index xs i = (if i < length xs then Some (xs ! i) else None)"

definition topic_device :: "string \<Rightarrow> device_key" where
  "topic_device topic = js_index (split_on CHR ''/'' topic) 1"

definition topic_kind :: "string \<Rightarrow> string option" where
  "topic_kind topic = js_index (split_on CHR ''/'' topic) 2"

text \<open>The \<^verbatim>\<open>catch\<close> block of the handler: the error is written to the console, nothing else.\<close>

definition catch_error :: "js_error \<Rightarrow> iot_state \<Rightarrow> iot_state" where
  "catch_error e s = s\<lparr>console := console s @ [LogParseError e]\<rparr>"

text \<open>
  The \<^verbatim>\<open>message\<close> handler of the broker client. \<open>parse\<close> stands for \<^verbatim>\<open>JSON.parse\<close> on the
  payload text: \<open>None\<close> when it throws a SyntaxError. Everything runs inside one
  \<^verbatim>\<open>try\<close>, so an error thrown anywhere ends the handler in the \<^verbatim>\<open>catch\<close> block with the
  mutations made so far.
\<close>

definition on_message ::
  "(string \<Rightarrow> json option) \<Rightarrow> timestamp \<Rightarrow> string \<Rightarrow> string \<Rightarrow> iot_state \<Rightarrow> iot_state" where
  "on_message parse now topic payload s =
     (let deviceId = topic_device topic;
          messageType = topic_kind topic
      in case parse payload of
           None \<Rightarrow> catch_error SyntaxError s
         | Some message \<Rightarrow>
            (let s1 = s\<lparr>console := console s @ [LogMessage topic message]\<rparr>
             in case updateDevice now deviceId message s1 of
                  (Some e, s2) \<Rightarrow> catch_error e s2
                | (None, s2) \<Rightarrow>
                   (if messageType = Some ''telemetry''
                    then storeSensorData now deviceId message s2
                    else if messageType = Some ''status''
                    then (case updateDeviceStatus deviceId message s2 of
                            (Some e, s3) \<Rightarrow> catch_error e s3
                          | (None, s3) \<Rightarrow> s3)
                    else if messageType = Some ''nfc''
                    then handleNFCScan deviceId message s2
                    else s2)))"

text \<open>An inbound message: the clock reading when it is handled, its topic, its payload.\<close>

type_synonym inbound = "timestamp \<times> string \<times> string"

definition run_messages ::
  "(string \<Rightarrow> json option) \<Rightarrow> inbound list \<Rightarrow> iot_state \<Rightarrow> iot_state" where
  "run_messages parse msgs s =
     foldl (\<lambda>st (now, topic, payload). on_message parse now topic payload st) s msgs"

section \<open>Device routes\<close>

datatype response_body =
    DeviceBody device
  | HistoryBody "telemetry list"
  | ErrorBody string
  | ValidationErrors
  | MessageBody string

datatype http_response = Response nat response_body

text \<open>
  \<^verbatim>\<open>GET /devices/:deviceId\<close>. The service call cannot throw in this model, so the route's
  \<^verbatim>\<open>catch\<close> branch (status 500) has no path leading to it.
\<close>

definition route_get_device :: "string \<Rightarrow> iot_state \<Rightarrow> http_response" where
  "route_get_device deviceId s =
     (if deviceId = [] then Response 400 ValidationErrors
      else (case getDeviceStatus (Some deviceId) s of
              Some d \<Rightarrow> Response 200 (DeviceBody d)
            | None \<Rightarrow> Response 404 (ErrorBody (''Device with ID '' @ deviceId @ '' not found.''))))"

text \<open>
  \<^verbatim>\<open>GET /devices/:deviceId/history\<close>. \<open>parseInt\<close> stands for \<^verbatim>\<open>parseInt(text, 10)\<close>; the
  query parameter is absent (\<open>None\<close>) or a text, and an empty text is falsy.
\<close>

definition route_get_history ::
  "(string \<Rightarrow> js_limit) \<Rightarrow> string \<Rightarrow> string option \<Rightarrow> iot_state \<Rightarrow> http_response" where
  "route_get_history parseInt deviceId query_limit s =
     (if deviceId = [] then Response 400 ValidationErrors
      else (let limit = (case query_limit of
                           None \<Rightarrow> LimInt 100
                         | Some txt \<Rightarrow> if txt = [] then LimInt 100 else parseInt txt)
            in Response 200 (HistoryBody (getSensorHistory (Some deviceId) limit s))))"

section \<open>The event stream route\<close>

text \<open>
  \<^verbatim>\<open>on(name, l)\<close> appends the listener to the array kept under the name;
  \<^verbatim>\<open>removeListener(name, l)\<close> removes the most recently added occurrence of it, if any.
\<close>

definition add_listener :: "string \<Rightarrow> listener \<Rightarrow> iot_state \<Rightarrow> iot_state" where
  "add_listener name l s = s\<lparr>listeners := (listeners s)(name := listeners s name @ [l])\<rparr>"

definition remove_last :: "'a \<Rightarrow> 'a list \<Rightarrow> 'a list" where
  "remove_last x xs = rev (remove1 x (rev xs))"

definition removeListener :: "string \<Rightarrow> listener \<Rightarrow> iot_state \<Rightarrow> iot_state" where
  "removeListener name l s =
     s\<lparr>listeners := (listeners s)(name := remove_last l (listeners s name))\<rparr>"

definition listenerCount :: "string \<Rightarrow> iot_state \<Rightarrow> nat" where
  "listenerCount name s = length (listeners s name)"

text \<open>
  The server side of the event stream: the IoT module, the requests whose stream is open,
  the responses that were ended, and the number of the next request. Every request gets
  closures of its own, so its three listeners are identified by the request's number.
\<close>

record stream_state =
  bus :: iot_state
  next_request :: nat
  open_requests :: "nat list"
  ended :: "nat list"

definition initial_streams :: stream_state where
  "initial_streams =
     \<lparr>bus = initial_state, next_request = 0, open_requests = [], ended = []\<rparr>"

text \<open>\<^verbatim>\<open>GET /events\<close>: three listeners are registered and the request stays open.\<close>

definition open_stream :: "stream_state \<Rightarrow> stream_state" where
  "open_stream st =
     (let c = next_request st;
          b1 = add_listener ''telemetry'' (SseListener c ''telemetry'') (bus st);
          b2 = add_listener ''status'' (SseListener c ''status'') b1;
          b3 = add_listener ''nfc_scan'' (SseListener c ''nfc_scan'') b2
      in st\<lparr>bus := b3, next_request := Suc c, open_requests := open_requests st @ [c]\<rparr>)"

text \<open>The \<^verbatim>\<open>close\<close> handler of request \<open>c\<close>.\<close>

definition on_close :: "nat \<Rightarrow> stream_state \<Rightarrow> stream_state" where
  "on_close c st =
     (let b1 = removeListener ''telemetry'' (SseListener c ''telemetry'') (bus st);
          b2 = removeListener ''status'' (SseListener c ''status'') b1;
          b3 = removeListener ''nfc_scan'' (SseListener c ''nfc_scan'') b2
      in st\<lparr>bus := b3, ended := ended st @ [c], open_requests := remove1 c (open_requests st)\<rparr>)"

text \<open>
  What can happen to the server: an observer connects, the connection of an observer
  closes, a broker message arrives. The close signal reaches the handler of a request
  whose stream is open; for any other number no handler is registered.
\<close>

datatype stream_op = Connect | Disconnect nat | Broker timestamp string string

fun stream_step :: "(string \<Rightarrow> json option) \<Rightarrow> stream_state \<Rightarrow> stream_op \<Rightarrow> stream_state" where
  "stream_step parse st Connect = open_stream st"
| "stream_step parse st (Disconnect c) =
     (if c \<in> set (open_requests st) then on_close c st else st)"
| "stream_step parse st (Broker now topic payload) =
     st\<lparr>bus := on_message parse now topic payload (bus st)\<rparr>"

definition run_streams ::
  "(string \<Rightarrow> json option) \<Rightarrow> stream_op list \<Rightarrow> stream_state \<Rightarrow> stream_state" where
  "run_streams parse ops st = foldl (stream_step parse) st ops"

section \<open>The command dispatcher\<close>

text \<open>
  \<^verbatim>\<open>{ command, ...payload }\<close>: the command first, then the payload's members, a member
  named \<^verbatim>\<open>command\<close> replacing the value in place. The message text handed to the broker
  client is represented by the JSON value it serialises.
\<close>

definition command_envelope :: "string \<Rightarrow> (string \<times> json) list \<Rightarrow> json" where
  "command_envelope command payload =
     JObj (foldl (\<lambda>acc (k, v). AList.update k v acc) [(''command'', JStr command)] payload)"

datatype command_log =
    CommandPublished string json
  | CommandFailed string js_error

text \<open>
  \<^verbatim>\<open>sendCommandToDevice\<close>. The broker client belongs to a library; \<open>publish\<close> stands for
  its \<^verbatim>\<open>publish(topic, message, callback)\<close>: it either throws (\<open>Inl\<close>) or returns with the
  client's new state and the error it passes to the callback, if any. The module variable
  \<^verbatim>\<open>mqttClient\<close> is \<^verbatim>\<open>undefined\<close> (\<open>None\<close>) until the service is initialised, and a method
  call on it then throws a TypeError. The callback only writes to the console.
\<close>

definition sendCommandToDevice ::
  "('c \<Rightarrow> string \<Rightarrow> json \<Rightarrow> js_error + ('c \<times> js_error option)) \<Rightarrow> 'c option \<Rightarrow>
   string \<Rightarrow> string \<Rightarrow> (string \<times> json) list \<Rightarrow> js_error + ('c \<times> command_log)" where
  "sendCommandToDevice publish mqttClient deviceId command payload =
     (let commandTopic = ''iot/'' @ deviceId @ ''/command'';
          message = command_envelope command payload
      in case mqttClient of
           None \<Rightarrow> Inl TypeError
         | Some client \<Rightarrow>
            (case publish client commandTopic message of
               Inl e \<Rightarrow> Inl e
             | Inr (client', Some err) \<Rightarrow> Inr (client', CommandFailed commandTopic err)
             | Inr (client', None) \<Rightarrow> Inr (client', CommandPublished commandTopic message)))"

text \<open>
  \<^verbatim>\<open>POST /devices/:deviceId/command\<close>. The request body's \<^verbatim>\<open>command\<close> must be a string
  and its \<^verbatim>\<open>payload\<close> an object; the route answers 202 unless the service call throws.
\<close>

fun is_string :: "json option \<Rightarrow> bool" where
  "is_string (Some (JStr c)) = True"
| "is_string other = False"

fun is_object :: "json option \<Rightarrow> bool" where
  "is_object (Some (JObj kvs)) = True"
| "is_object other = False"

definition route_post_command ::
  "('c \<Rightarrow> string \<Rightarrow> json \<Rightarrow> js_error + ('c \<times> js_error option)) \<Rightarrow> 'c option \<Rightarrow>
   string \<Rightarrow> json option \<Rightarrow> json option \<Rightarrow> http_response \<times> 'c option" where
  "route_post_command publish mqttClient deviceId command payload =
     (case (command, payload) of
        (Some (JStr c), Some (JObj kvs)) \<Rightarrow>
          (if deviceId = [] then (Response 400 ValidationErrors, mqttClient)
           else (case sendCommandToDevice publish mqttClient deviceId c kvs of
                   Inl e \<Rightarrow> (Response 500 (ErrorBody ''Failed to send command''), mqttClient)
                 | Inr (client', l) \<Rightarrow>
                     (Response 202
                        (MessageBody (''Command '' @ c @ '' sent to device '' @ deviceId @ ''.'')),
                      Some client')))
      | other \<Rightarrow> (Response 400 ValidationErrors, mqttClient))"

text \<open>
  A broker client for experiments: it knows whether it is connected, what it has sent and
  what it holds back for later. This one never holds a message back: when it is not
  connected it reports the failure to the callback at once.
\<close>

record mqtt_client =
  connected :: bool
  sent :: "(string \<times> json) list"
  queued :: "(string \<times> json) list"

definition strict_publish ::
  "mqtt_client \<Rightarrow> string \<Rightarrow> json \<Rightarrow> js_error + (mqtt_client \<times> js_error option)" where
  "strict_publish client topic message =
     (if connected client
      then Inr (client\<lparr>sent := sent client @ [(topic, message)]\<rparr>, None)
      else Inr (client, Some (LibraryError ''client disconnected'')))"

section \<open>The ledger gateway\<close>

text \<open>
  A gateway object is created by \<^verbatim>\<open>new Gateway()\<close>, holds a session after \<^verbatim>\<open>connect\<close>
  and none after \<^verbatim>\<open>disconnect\<close>. Gateways are numbered in the order of creation.
\<close>

datatype gateway_status = GwCreated | GwConnected | GwDisconnected

datatype ledger_log =
    LogSubmitting string "string list"
  | LogCommitted
  | LogEvaluating string "string list"
  | LogQueryResult string
  | LogFailed js_error

record ledger_state =
  gateways :: "gateway_status list"
  ledger_console :: "ledger_log list"

text \<open>
  How the network client library and the file system answer during one call: for every
  step, the error it throws, if any, and for the invocation its result.
\<close>

record call_env =
  read_profile :: "js_error option"
  new_wallet :: "js_error option"
  gateway_connect :: "js_error option"
  get_network :: "js_error option"
  get_contract :: "js_error option"
  invoke_submit :: "string \<Rightarrow> string list \<Rightarrow> js_error + string"
  invoke_evaluate :: "string \<Rightarrow> string list \<Rightarrow> js_error + string"

definition disconnect :: "nat \<Rightarrow> ledger_state \<Rightarrow> ledger_state" where
  "disconnect g s = s\<lparr>gateways := (gateways s)[g := GwDisconnected]\<rparr>"

text \<open>
  \<^verbatim>\<open>connectToGateway\<close>: read the profile, open the wallet, create a gateway, connect it,
  resolve the network and the contract. The gateway is a local variable: it reaches the
  caller only in the returned pair.
\<close>

definition connectToGateway :: "call_env \<Rightarrow> ledger_state \<Rightarrow> (js_error + nat) \<times> ledger_state" where
  "connectToGateway env s =
     (case read_profile env of
        Some e \<Rightarrow> (Inl e, s)
      | None \<Rightarrow>
         (case new_wallet env of
            Some e \<Rightarrow> (Inl e, s)
          | None \<Rightarrow>
             (let gateway = length (gateways s);
                  s1 = s\<lparr>gateways := gateways s @ [GwCreated]\<rparr>
              in case gateway_connect env of
                   Some e \<Rightarrow> (Inl e, s1)
                 | None \<Rightarrow>
                    (let s2 = s1\<lparr>gateways := (gateways s1)[gateway := GwConnected]\<rparr>
                     in case get_network env of
                          Some e \<Rightarrow> (Inl e, s2)
                        | None \<Rightarrow>
                           (case get_contract env of
                              Some e \<Rightarrow> (Inl e, s2)
                            | None \<Rightarrow> (Inr gateway, s2))))))"

text \<open>The \<^verbatim>\<open>finally\<close> block: \<^verbatim>\<open>if (gateway) gateway.disconnect()\<close>.\<close>

definition finally_disconnect :: "nat option \<Rightarrow> ledger_state \<Rightarrow> ledger_state" where
  "finally_disconnect gateway s = (case gateway of None \<Rightarrow> s | Some g \<Rightarrow> disconnect g s)"

definition log_ledger :: "ledger_log \<Rightarrow> ledger_state \<Rightarrow> ledger_state" where
  "log_ledger l s = s\<lparr>ledger_console := ledger_console s @ [l]\<rparr>"

text \<open>
  \<^verbatim>\<open>submitTransaction\<close>: the variable \<^verbatim>\<open>gateway\<close> is assigned once \<^verbatim>\<open>connectToGateway\<close> has
  returned; the \<^verbatim>\<open>catch\<close> block logs and rethrows; the \<^verbatim>\<open>finally\<close> block runs last.
\<close>

definition submitTransaction ::
  "call_env \<Rightarrow> string \<Rightarrow> string list \<Rightarrow> ledger_state \<Rightarrow> (js_error + string) \<times> ledger_state" where
  "submitTransaction env functionName args s =
     (case connectToGateway env s of
        (Inl e, s1) \<Rightarrow> (Inl e, finally_disconnect None (log_ledger (LogFailed e) s1))
      | (Inr g, s1) \<Rightarrow>
         (let s2 = log_ledger (LogSubmitting functionName args) s1
          in case invoke_submit env functionName args of
               Inl e \<Rightarrow> (Inl e, finally_disconnect (Some g) (log_ledger (LogFailed e) s2))
             | Inr result \<Rightarrow> (Inr result, finally_disconnect (Some g) (log_ledger LogCommitted s2))))"

definition evaluateTransaction ::
  "call_env \<Rightarrow> string \<Rightarrow> string list \<Rightarrow> ledger_state \<Rightarrow> (js_error + string) \<times> ledger_state" where
  "evaluateTransaction env functionName args s =
     (case connectToGateway env s of
        (Inl e, s1) \<Rightarrow> (Inl e, finally_disconnect None (log_ledger (LogFailed e) s1))
      | (Inr g, s1) \<Rightarrow>
         (let s2 = log_ledger (LogEvaluating functionName args) s1
          in case invoke_evaluate env functionName args of
               Inl e \<Rightarrow> (Inl e, finally_disconnect (Some g) (log_ledger (LogFailed e) s2))
             | Inr result \<Rightarrow>
                 (Inr result, finally_disconnect (Some g) (log_ledger (LogQueryResult result) s2))))"

text \<open>The sessions that are open: the gateways connected and not disconnected.\<close>

definition open_sessions :: "ledger_state \<Rightarrow> nat" where
  "open_sessions s = length (filter (\<lambda>g. g = GwConnected) (gateways s))"

section \<open>The identity provisioner\<close>

record identity =
  certificate :: string
  privateKey :: string
  id_mspId :: string
  id_type :: string

type_synonym wallet = "(string \<times> identity) list"

datatype ca_call = CaEnroll string string | CaRegister string

text \<open>
  How the file system, the wallet and the certificate authority answer during startup:
  for every step the error it throws, if any; for an enrolment the certificate and the
  key; for a registration the secret.
\<close>

record provision_env =
  load_profile :: "js_error option"
  make_ca_client :: "js_error option"
  open_wallet :: "js_error option"
  wallet_put :: "js_error option"
  admin_context :: "js_error option"
  ca_enroll :: "string \<Rightarrow> string \<Rightarrow> js_error + (string \<times> string)"
  ca_register :: "string \<Rightarrow> js_error + string"
  msp_id :: string

definition org1UserId :: string where
  "org1UserId = ''appUser''"

text \<open>
  The names bound where the body of \<^verbatim>\<open>initializeBlockchain\<close> runs: the imports and
  declarations of the module, the globals the function uses, and the function's own
  \<^verbatim>\<open>const\<close> declarations. The module is an ES module, so reading any other name throws a
  ReferenceError.
\<close>

definition names_in_scope :: "string list" where
  "names_in_scope =
     [''Gateway'', ''Wallets'', ''FabricCAServices'', ''path'', ''fileURLToPath'', ''fs'',
      ''__filename'', ''__dirname'', ''channelName'', ''chaincodeName'', ''mspId'',
      ''walletPath'', ''org1UserId'', ''connectionProfilePath'', ''connectToGateway'',
      ''initializeBlockchain'', ''submitTransaction'', ''evaluateTransaction'',
      ''getNetworkStatus'', ''getChaincodeInfo'', ''console'', ''process'', ''JSON'',
      ''ccp'', ''caInfo'', ''ca'', ''wallet'', ''adminIdentity'', ''enrollment'',
      ''x509Identity'', ''userIdentity'', ''adminUser'', ''provider'', ''adminUserContext'',
      ''secret'']"

definition resolve_name :: "string \<Rightarrow> js_error option" where
  "resolve_name name =
     (if name \<in> set names_in_scope then None else Some (ReferenceError name))"

definition x509Identity :: "provision_env \<Rightarrow> string \<times> string \<Rightarrow> identity" where
  "x509Identity env enrollment =
     \<lparr>certificate = fst enrollment, privateKey = snd enrollment,
      id_mspId = msp_id env, id_type = ''X.509''\<rparr>"

text \<open>The administrative identity: enrolled with the bootstrap secret when absent.\<close>

definition provision_admin ::
  "provision_env \<Rightarrow> wallet \<Rightarrow> ca_call list \<Rightarrow> js_error option \<times> wallet \<times> ca_call list" where
  "provision_admin env w calls =
     (case map_of w ''admin'' of
        Some adminIdentity \<Rightarrow> (None, w, calls)
      | None \<Rightarrow>
         (let calls1 = calls @ [CaEnroll ''admin'' ''adminpw'']
          in case ca_enroll env ''admin'' ''adminpw'' of
               Inl e \<Rightarrow> (Some e, w, calls1)
             | Inr enrollment \<Rightarrow>
                (case wallet_put env of
                   Some e \<Rightarrow> (Some e, w, calls1)
                 | None \<Rightarrow> (None, AList.update ''admin'' (x509Identity env enrollment) w, calls1))))"

text \<open>
  The application identity: when absent, the code reads \<^verbatim>\<open>gateway.getIdentity('admin')\<close>,
  obtains the administrator's user context, registers, enrols and stores.
\<close>

definition provision_user ::
  "provision_env \<Rightarrow> wallet \<Rightarrow> ca_call list \<Rightarrow> js_error option \<times> wallet \<times> ca_call list" where
  "provision_user env w calls =
     (case map_of w org1UserId of
        Some userIdentity \<Rightarrow> (None, w, calls)
      | None \<Rightarrow>
         (case resolve_name ''gateway'' of
            Some e \<Rightarrow> (Some e, w, calls)
          | None \<Rightarrow>
             (case admin_context env of
                Some e \<Rightarrow> (Some e, w, calls)
              | None \<Rightarrow>
                 (let calls1 = calls @ [CaRegister org1UserId]
                  in case ca_register env org1UserId of
                       Inl e \<Rightarrow> (Some e, w, calls1)
                     | Inr secret \<Rightarrow>
                        (let calls2 = calls1 @ [CaEnroll org1UserId secret]
                         in case ca_enroll env org1UserId secret of
                              Inl e \<Rightarrow> (Some e, w, calls2)
                            | Inr enrollment \<Rightarrow>
                               (case wallet_put env of
                                  Some e \<Rightarrow> (Some e, w, calls2)
                                | None \<Rightarrow>
                                    (None, AList.update org1UserId (x509Identity env enrollment) w,
                                     calls2)))))))"

datatype startup = Initialized | ProcessExit nat

record provision_result =
  outcome :: startup
  wallet_after :: wallet
  ca_calls :: "ca_call list"

text \<open>
  \<^verbatim>\<open>initializeBlockchain\<close>: the whole body is one \<^verbatim>\<open>try\<close>; the \<^verbatim>\<open>catch\<close> block ends the
  process with exit code 1.
\<close>

definition initializeBlockchain :: "provision_env \<Rightarrow> wallet \<Rightarrow> provision_result" where
  "initializeBlockchain env w =
     (case load_profile env of
        Some e \<Rightarrow> \<lparr>outcome = ProcessExit 1, wallet_after = w, ca_calls = []\<rparr>
      | None \<Rightarrow>
         (case make_ca_client env of
            Some e \<Rightarrow> \<lparr>outcome = ProcessExit 1, wallet_after = w, ca_calls = []\<rparr>
          | None \<Rightarrow>
             (case open_wallet env of
                Some e \<Rightarrow> \<lparr>outcome = ProcessExit 1, wallet_after = w, ca_calls = []\<rparr>
              | None \<Rightarrow>
                 (case provision_admin env w [] of
                    (Some e, w1, calls1) \<Rightarrow>
                      \<lparr>outcome = ProcessExit 1, wallet_after = w1, ca_calls = calls1\<rparr>
                  | (None, w1, calls1) \<Rightarrow>
                     (case provision_user env w1 calls1 of
                        (Some e, w2, calls2) \<Rightarrow>
                          \<lparr>outcome = ProcessExit 1, wallet_after = w2, ca_calls = calls2\<rparr>
                      | (None, w2, calls2) \<Rightarrow>
                          \<lparr>outcome = Initialized, wallet_after = w2, ca_calls = calls2\<rparr>)))))"

text \<open>
  \<^verbatim>\<open>startServer\<close>: connect to the database, initialise the ledger identities, initialise
  the IoT service, listen. An exit inside \<^verbatim>\<open>initializeBlockchain\<close> ends the process there.
\<close>

datatype server = Listening | Terminated nat

definition startServer ::
  "js_error option \<Rightarrow> js_error option \<Rightarrow> provision_env \<Rightarrow> wallet \<Rightarrow> server" where
  "startServer mongo_connect iot_init env w =
     (case mongo_connect of
        Some e \<Rightarrow> Terminated 1
      | None \<Rightarrow>
         (case outcome (initializeBlockchain env w) of
            ProcessExit code \<Rightarrow> Terminated code
          | Initialized \<Rightarrow>
             (case iot_init of
                Some e \<Rightarrow> Terminated 1
              | None \<Rightarrow> Listening)))"

section \<open>Sequences of telemetry appends\<close>

text \<open>An append: the clock reading, the device and the sample's payload.\<close>

definition run_appends ::
  "(timestamp \<times> device_key \<times> json) list \<Rightarrow> iot_state \<Rightarrow> iot_state" where
  "run_appends xs s = foldl (\<lambda>st (now, deviceId, data). storeSensorData now deviceId data st) s xs"

text \<open>The samples that a sequence of appends carries for one device, in arrival order.\<close>

definition samples_for :: "device_key \<Rightarrow> (timestamp \<times> device_key \<times> json) list \<Rightarrow> telemetry list" where
  "samples_for D xs =
     map (\<lambda>(now, deviceId, data). \<lparr>t_value = data, t_timestamp = now\<rparr>)
       (filter (\<lambda>(now, deviceId, data). deviceId = D) xs)"

definition stored_history :: "device_key \<Rightarrow> iot_state \<Rightarrow> telemetry list" where
  "stored_history D s = (case map_of (sensorData s) D of None \<Rightarrow> [] | Some h \<Rightarrow> h)"

section \<open>Observations on the module state\<close>

text \<open>Two states hold the same data when they agree on everything but the console.\<close>

definition same_data :: "iot_state \<Rightarrow> iot_state \<Rightarrow> bool" where
  "same_data s t =
     (iotDevices s = iotDevices t \<and> sensorData s = sensorData t \<and> listeners s = listeners t \<and>
      emitted s = emitted t \<and> written s = written t)"

text \<open>The device is unknown to the registry, or its recorded status is the text online.\<close>

definition online_or_absent :: "device_key \<Rightarrow> iot_state \<Rightarrow> bool" where
  "online_or_absent k s =
     (case getDeviceStatus k s of None \<Rightarrow> True | Some d \<Rightarrow> status d = JStr ''online'')"

text \<open>A message on the status topic of the device.\<close>

definition is_status_for :: "device_key \<Rightarrow> inbound \<Rightarrow> bool" where
  "is_status_for k msg = (case msg of (now, topic, payload) \<Rightarrow>
     topic_device topic = k \<and> topic_kind topic = Some ''status'')"

text \<open>A parser for experiments: it accepts three payload texts and rejects every other.\<close>

definition sample_parse :: "string \<Rightarrow> json option" where
  "sample_parse payload =
     (if payload = ''{}'' then Some (JObj [])
      else if payload = ''null'' then Some JNull
      else if payload = ''7'' then Some (JNum 7)
      else None)"

text \<open>
  The listeners registered under a name are those of the open requests, in the order in
  which the requests were opened.
\<close>

definition listeners_match :: "string \<Rightarrow> stream_state \<Rightarrow> bool" where
  "listeners_match name st =
     (listeners (bus st) name = map (\<lambda>c. SseListener c name) (open_requests st))"

definition stream_inv :: "stream_state \<Rightarrow> bool" where
  "stream_inv st =
     (listeners_match ''telemetry'' st \<and> listeners_match ''status'' st \<and>
      listeners_match ''nfc_scan'' st \<and> distinct (open_requests st) \<and>
      list_all (\<lambda>c. c < next_request st) (open_requests st))"

section \<open>Environments for experiments\<close>

text \<open>
  A ledger call during which the gateway connects and the channel is then not found:
  \<^verbatim>\<open>gateway.getNetwork\<close> throws.
\<close>

definition network_failure_env :: call_env where
  "network_failure_env =
     \<lparr>read_profile = None, new_wallet = None, gateway_connect = None,
      get_network = Some (LibraryError ''channel not found''), get_contract = None,
      invoke_submit = (\<lambda>functionName args. Inr ''committed''),
      invoke_evaluate = (\<lambda>functionName args. Inr ''value'')\<rparr>"

definition no_sessions :: ledger_state where
  "no_sessions = \<lparr>gateways = [], ledger_console = []\<rparr>"

text \<open>
  A startup during which every file can be read and the certificate authority accepts
  every enrolment and every registration.
\<close>

definition accepting_env :: provision_env where
  "accepting_env =
     \<lparr>load_profile = None, make_ca_client = None, open_wallet = None, wallet_put = None,
      admin_context = None,
      ca_enroll = (\<lambda>enrollmentID secret. Inr (''cert-'' @ enrollmentID, ''key-'' @ enrollmentID)),
      ca_register = (\<lambda>enrollmentID. Inr (''secret-'' @ enrollmentID)),
      msp_id = ''Org1MSP''\<rparr>"

definition admin_only_wallet :: wallet where
  "admin_only_wallet =
     [(''admin'', \<lparr>certificate = ''cert-admin'', privateKey = ''key-admin'',
                   id_mspId = ''Org1MSP'', id_type = ''X.509''\<rparr>)]"

definition disconnected_client :: mqtt_client where
  "disconnected_client = \<lparr>connected = False, sent = [], queued = []\<rparr>"

section \<open>Network health of an empty registry\<close>

text \<open>
  C9. When the device registry holds no device, the health report has totalDevices = 0,
  onlinePercentage = 100 and avgBatteryLevel = null; the report is an ordinary value,
  no error is raised.
\<close>

theorem health_empty_registry:
  "getNetworkHealth now (s\<lparr>iotDevices := []\<rparr>) =
     \<lparr>totalDevices = 0, onlineDevices = 0, offlineDevices = 0,
      onlinePercentage = 100, avgBatteryLevel = AvgNull, h_timestamp = now\<rparr>"
  by (simp add: getNetworkHealth_def)

section \<open>The telemetry store keeps the last 200 samples\<close>

lemma stored_history_store:
  "stored_history D (storeSensorData now k d s) =
     (if k = D
      then (if length (stored_history D s) \<ge> 200
            then tl (stored_history D s @ [\<lparr>t_value = d, t_timestamp = now\<rparr>])
            else stored_history D s @ [\<lparr>t_value = d, t_timestamp = now\<rparr>])
      else stored_history D s)"
  by (auto simp add: stored_history_def storeSensorData_def Let_def emit_def update_conv'
        split: option.splits)

lemma drop_bounded_step:
  assumes "length h \<le> 200"
  shows "drop (length ((if length h \<ge> 200 then tl (h @ [x]) else h @ [x]) @ ys) - 200)
           ((if length h \<ge> 200 then tl (h @ [x]) else h @ [x]) @ ys)
         = drop (length (h @ x # ys) - 200) (h @ x # ys)"
proof (cases "length h \<ge> 200")
  case False
  then show ?thesis by simp
next
  case True
  with assms have len: "length h = 200" by simp
  then obtain a h' where h: "h = a # h'" by (cases h) auto
  with len have "length h' = 199" by simp
  then show ?thesis using h by (simp add: Suc_diff_le)
qed

lemma run_appends_history:
  "length (stored_history D s) \<le> 200 \<Longrightarrow>
   stored_history D (run_appends xs s) =
     drop (length (stored_history D s @ samples_for D xs) - 200)
       (stored_history D s @ samples_for D xs)"
proof (induction xs arbitrary: s)
  case Nil
  then show ?case by (simp add: run_appends_def samples_for_def)
next
  case (Cons x xs)
  obtain now k d where x: "x = (now, k, d)" by (cases x)
  let ?s' = "storeSensorData now k d s"
  have run: "run_appends (x # xs) s = run_appends xs ?s'"
    by (simp add: run_appends_def x)
  have len': "length (stored_history D ?s') \<le> 200"
    using Cons.prems by (simp add: stored_history_store)
  show ?case
  proof (cases "k = D")
    case False
    then have "stored_history D ?s' = stored_history D s" "samples_for D (x # xs) = samples_for D xs"
      by (simp_all add: stored_history_store samples_for_def x)
    then show ?thesis using Cons.IH [OF len'] run by simp
  next
    case True
    have sf: "samples_for D (x # xs) = \<lparr>t_value = d, t_timestamp = now\<rparr> # samples_for D xs"
      using True by (simp add: samples_for_def x)
    have sh: "stored_history D ?s' =
        (if length (stored_history D s) \<ge> 200
         then tl (stored_history D s @ [\<lparr>t_value = d, t_timestamp = now\<rparr>])
         else stored_history D s @ [\<lparr>t_value = d, t_timestamp = now\<rparr>])"
      using True by (simp add: stored_history_store)
    show ?thesis
      unfolding run Cons.IH [OF len'] sf sh
      by (rule drop_bounded_step [OF Cons.prems])
  qed
qed

lemma history_200:
  "length (stored_history D s) \<le> 200 \<Longrightarrow> getSensorHistory D (LimInt 200) s = stored_history D s"
  by (simp add: getSensorHistory_def stored_history_def js_slice_def Let_def)

text \<open>
  C1. For every device D and every sequence of telemetry appends (for D and for other
  devices, in any interleaving) applied to the freshly loaded module: the sequence stored
  for D is the last 200 of D's samples in arrival order, so it never holds more than 200;
  history(D, limit = 200) returns exactly that sequence; and one more append for D stores
  the old sequence followed by the new sample with the oldest sample dropped exactly when
  200 were stored.
\<close>

theorem telemetry_store_fifo:
  "stored_history D (run_appends xs initial_state)
     = drop (length (samples_for D xs) - 200) (samples_for D xs)
   \<and> length (stored_history D (run_appends xs initial_state)) \<le> 200
   \<and> getSensorHistory D (LimInt 200) (run_appends xs initial_state)
       = drop (length (samples_for D xs) - 200) (samples_for D xs)
   \<and> stored_history D (storeSensorData now D d (run_appends xs initial_state))
       = drop (Suc (length (stored_history D (run_appends xs initial_state))) - 200)
           (stored_history D (run_appends xs initial_state) @ [\<lparr>t_value = d, t_timestamp = now\<rparr>])"
proof -
  have init: "stored_history D initial_state = []"
    by (simp add: stored_history_def initial_state_def)
  have a: "stored_history D (run_appends xs initial_state)
     = drop (length (samples_for D xs) - 200) (samples_for D xs)"
    using run_appends_history [of D initial_state xs] init by simp
  have b: "length (stored_history D (run_appends xs initial_state)) \<le> 200"
    unfolding a by simp
  have c: "getSensorHistory D (LimInt 200) (run_appends xs initial_state)
       = drop (length (samples_for D xs) - 200) (samples_for D xs)"
    using history_200 [OF b] a by simp
  have d: "stored_history D (storeSensorData now D d (run_appends xs initial_state))
       = drop (Suc (length (stored_history D (run_appends xs initial_state))) - 200)
           (stored_history D (run_appends xs initial_state) @ [\<lparr>t_value = d, t_timestamp = now\<rparr>])"
  proof (cases "length (stored_history D (run_appends xs initial_state)) \<ge> 200")
    case True
    with b have len: "length (stored_history D (run_appends xs initial_state)) = 200" by simp
    then obtain a h' where h: "stored_history D (run_appends xs initial_state) = a # h'"
      by (cases "stored_history D (run_appends xs initial_state)") auto
    show ?thesis using len h by (simp add: stored_history_store)
  next
    case False
    then show ?thesis by (simp add: stored_history_store)
  qed
  show ?thesis using a b c d by blast
qed

section \<open>What each operation leaves unchanged\<close>

lemma updateDevice_frame:
  "sensorData (snd (updateDevice now k m s)) = sensorData s"
  "listeners (snd (updateDevice now k m s)) = listeners s"
  "emitted (snd (updateDevice now k m s)) = emitted s"
  "written (snd (updateDevice now k m s)) = written s"
  "console (snd (updateDevice now k m s)) = console s"
  by (simp_all add: updateDevice_def Let_def split: sum.splits option.splits)

lemma updateDevice_other:
  "k' \<noteq> k \<Longrightarrow> map_of (iotDevices (snd (updateDevice now k m s))) k' = map_of (iotDevices s) k'"
  by (simp add: updateDevice_def Let_def update_conv' split: sum.splits option.splits)

lemma updateDevice_status:
  "\<exists>d'. map_of (iotDevices (snd (updateDevice now k m s))) k = Some d' \<and>
        status d' = (case map_of (iotDevices s) k of None \<Rightarrow> JStr ''online'' | Some d \<Rightarrow> status d)"
  by (auto simp add: updateDevice_def Let_def update_conv' split: sum.splits option.splits)

lemma storeSensorData_frame:
  "iotDevices (storeSensorData now k m s) = iotDevices s"
  "listeners (storeSensorData now k m s) = listeners s"
  "console (storeSensorData now k m s) = console s"
  by (simp_all add: storeSensorData_def Let_def emit_def split: option.splits)

lemma storeSensorData_other:
  "k' \<noteq> k \<Longrightarrow> map_of (sensorData (storeSensorData now k m s)) k' = map_of (sensorData s) k'"
  by (simp add: storeSensorData_def Let_def emit_def update_conv' split: option.splits)

lemma updateDeviceStatus_frame:
  "sensorData (snd (updateDeviceStatus k m s)) = sensorData s"
  "listeners (snd (updateDeviceStatus k m s)) = listeners s"
  by (simp_all add: updateDeviceStatus_def Let_def emit_def split: option.splits sum.splits)

lemma updateDeviceStatus_other:
  "k' \<noteq> k \<Longrightarrow> map_of (iotDevices (snd (updateDeviceStatus k m s))) k' = map_of (iotDevices s) k'"
  by (simp add: updateDeviceStatus_def Let_def emit_def update_conv' split: option.splits sum.splits)

lemma handleNFCScan_frame:
  "iotDevices (handleNFCScan k m s) = iotDevices s"
  "sensorData (handleNFCScan k m s) = sensorData s"
  "listeners (handleNFCScan k m s) = listeners s"
  by (simp_all add: handleNFCScan_def emit_def)

lemma catch_error_frame:
  "iotDevices (catch_error e s) = iotDevices s"
  "sensorData (catch_error e s) = sensorData s"
  "listeners (catch_error e s) = listeners s"
  "emitted (catch_error e s) = emitted s"
  "written (catch_error e s) = written s"
  "console (catch_error e s) = console s @ [LogParseError e]"
  by (simp_all add: catch_error_def)

text \<open>The handler, one case per way through it.\<close>

lemma on_message_cases:
  obtains
    (unparsed) "parse payload = None"
      "on_message parse now topic payload s = catch_error SyntaxError s"
  | (thrown) m e s2 where "parse payload = Some m"
      "updateDevice now (topic_device topic) m (s\<lparr>console := console s @ [LogMessage topic m]\<rparr>) = (Some e, s2)"
      "on_message parse now topic payload s = catch_error e s2"
  | (telemetry) m s2 where "parse payload = Some m"
      "updateDevice now (topic_device topic) m (s\<lparr>console := console s @ [LogMessage topic m]\<rparr>) = (None, s2)"
      "topic_kind topic = Some ''telemetry''"
      "on_message parse now topic payload s = storeSensorData now (topic_device topic) m s2"
  | (status) m s2 where "parse payload = Some m"
      "updateDevice now (topic_device topic) m (s\<lparr>console := console s @ [LogMessage topic m]\<rparr>) = (None, s2)"
      "topic_kind topic = Some ''status''"
      "on_message parse now topic payload s =
         (case updateDeviceStatus (topic_device topic) m s2 of
            (Some e, s3) \<Rightarrow> catch_error e s3 | (None, s3) \<Rightarrow> s3)"
  | (nfc) m s2 where "parse payload = Some m"
      "updateDevice now (topic_device topic) m (s\<lparr>console := console s @ [LogMessage topic m]\<rparr>) = (None, s2)"
      "topic_kind topic = Some ''nfc''"
      "on_message parse now topic payload s = handleNFCScan (topic_device topic) m s2"
  | (other) m s2 where "parse payload = Some m"
      "updateDevice now (topic_device topic) m (s\<lparr>console := console s @ [LogMessage topic m]\<rparr>) = (None, s2)"
      "topic_kind topic \<noteq> Some ''telemetry''" "topic_kind topic \<noteq> Some ''status''"
      "topic_kind topic \<noteq> Some ''nfc''"
      "on_message parse now topic payload s = s2"
proof (cases "parse payload")
  case None
  then show ?thesis using unparsed by (simp add: on_message_def)
next
  case (Some m)
  obtain r s2 where u:
    "updateDevice now (topic_device topic) m (s\<lparr>console := console s @ [LogMessage topic m]\<rparr>) = (r, s2)"
    by (cases "updateDevice now (topic_device topic) m (s\<lparr>console := console s @ [LogMessage topic m]\<rparr>)")
  show ?thesis
  proof (cases r)
    case (Some e)
    then show ?thesis using thrown [of m e s2] u \<open>parse payload = Some m\<close>
      by (simp add: on_message_def)
  next
    case None
    consider "topic_kind topic = Some ''telemetry''" | "topic_kind topic = Some ''status''"
      | "topic_kind topic = Some ''nfc''"
      | "topic_kind topic \<noteq> Some ''telemetry''" "topic_kind topic \<noteq> Some ''status''"
        "topic_kind topic \<noteq> Some ''nfc''"
      by blast
    then show ?thesis
    proof cases
      case 1
      then show ?thesis using telemetry [of m s2] u None \<open>parse payload = Some m\<close>
        by (simp add: on_message_def)
    next
      case 2
      then show ?thesis using status [of m s2] u None \<open>parse payload = Some m\<close>
        by (simp add: on_message_def)
    next
      case 3
      then show ?thesis using nfc [of m s2] u None \<open>parse payload = Some m\<close>
        by (simp add: on_message_def)
    next
      case 4
      then show ?thesis using other [of m s2] u None \<open>parse payload = Some m\<close>
        by (simp add: on_message_def)
    qed
  qed
qed

lemma on_message_devices_other:
  assumes "topic_device topic \<noteq> k"
  shows "map_of (iotDevices (on_message parse now topic payload s)) k = map_of (iotDevices s) k"
proof (cases rule: on_message_cases [where parse = parse and payload = payload
    and now = now and topic = topic and s = s])
  case unparsed
  then show ?thesis by (simp add: catch_error_frame)
next
  case (thrown m e s2)
  then show ?thesis
    using updateDevice_other [of k "topic_device topic" now m "s\<lparr>console := console s @ [LogMessage topic m]\<rparr>"] assms
    by (simp add: catch_error_frame)
next
  case (telemetry m s2)
  then show ?thesis
    using updateDevice_other [of k "topic_device topic" now m "s\<lparr>console := console s @ [LogMessage topic m]\<rparr>"] assms
    by (simp add: storeSensorData_frame)
next
  case (status m s2)
  obtain r3 s3 where v: "updateDeviceStatus (topic_device topic) m s2 = (r3, s3)"
    by (cases "updateDeviceStatus (topic_device topic) m s2")
  then show ?thesis
    using status updateDeviceStatus_other [of k "topic_device topic" m s2]
      updateDevice_other [of k "topic_device topic" now m "s\<lparr>console := console s @ [LogMessage topic m]\<rparr>"] assms
    by (cases r3) (simp_all add: catch_error_frame)
next
  case (nfc m s2)
  then show ?thesis
    using updateDevice_other [of k "topic_device topic" now m "s\<lparr>console := console s @ [LogMessage topic m]\<rparr>"] assms
    by (simp add: handleNFCScan_frame)
next
  case (other m s2)
  then show ?thesis
    using updateDevice_other [of k "topic_device topic" now m "s\<lparr>console := console s @ [LogMessage topic m]\<rparr>"] assms
    by simp
qed

lemma on_message_sensor_other:
  assumes "topic_device topic \<noteq> k"
  shows "map_of (sensorData (on_message parse now topic payload s)) k = map_of (sensorData s) k"
proof (cases rule: on_message_cases [where parse = parse and payload = payload
    and now = now and topic = topic and s = s])
  case unparsed
  then show ?thesis by (simp add: catch_error_frame)
next
  case (thrown m e s2)
  then show ?thesis
    using updateDevice_frame(1) [of now "topic_device topic" m "s\<lparr>console := console s @ [LogMessage topic m]\<rparr>"]
    by (simp add: catch_error_frame)
next
  case (telemetry m s2)
  then show ?thesis
    using updateDevice_frame(1) [of now "topic_device topic" m "s\<lparr>console := console s @ [LogMessage topic m]\<rparr>"] assms
    by (simp add: storeSensorData_other)
next
  case (status m s2)
  obtain r3 s3 where v: "updateDeviceStatus (topic_device topic) m s2 = (r3, s3)"
    by (cases "updateDeviceStatus (topic_device topic) m s2")
  then show ?thesis
    using status updateDeviceStatus_frame(1) [of "topic_device topic" m s2]
      updateDevice_frame(1) [of now "topic_device topic" m "s\<lparr>console := console s @ [LogMessage topic m]\<rparr>"]
    by (cases r3) (simp_all add: catch_error_frame)
next
  case (nfc m s2)
  then show ?thesis
    using updateDevice_frame(1) [of now "topic_device topic" m "s\<lparr>console := console s @ [LogMessage topic m]\<rparr>"]
    by (simp add: handleNFCScan_frame)
next
  case (other m s2)
  then show ?thesis
    using updateDevice_frame(1) [of now "topic_device topic" m "s\<lparr>console := console s @ [LogMessage topic m]\<rparr>"]
    by simp
qed

lemma on_message_listeners:
  "listeners (on_message parse now topic payload s) = listeners s"
proof (cases rule: on_message_cases [where parse = parse and payload = payload
    and now = now and topic = topic and s = s])
  case unparsed
  then show ?thesis by (simp add: catch_error_frame)
next
  case (thrown m e s2)
  then show ?thesis
    using updateDevice_frame(2) [of now "topic_device topic" m "s\<lparr>console := console s @ [LogMessage topic m]\<rparr>"]
    by (simp add: catch_error_frame)
next
  case (telemetry m s2)
  then show ?thesis
    using updateDevice_frame(2) [of now "topic_device topic" m "s\<lparr>console := console s @ [LogMessage topic m]\<rparr>"]
    by (simp add: storeSensorData_frame)
next
  case (status m s2)
  obtain r3 s3 where v: "updateDeviceStatus (topic_device topic) m s2 = (r3, s3)"
    by (cases "updateDeviceStatus (topic_device topic) m s2")
  then show ?thesis
    using status updateDeviceStatus_frame(2) [of "topic_device topic" m s2]
      updateDevice_frame(2) [of now "topic_device topic" m "s\<lparr>console := console s @ [LogMessage topic m]\<rparr>"]
    by (cases r3) (simp_all add: catch_error_frame)
next
  case (nfc m s2)
  then show ?thesis
    using updateDevice_frame(2) [of now "topic_device topic" m "s\<lparr>console := console s @ [LogMessage topic m]\<rparr>"]
    by (simp add: handleNFCScan_frame)
next
  case (other m s2)
  then show ?thesis
    using updateDevice_frame(2) [of now "topic_device topic" m "s\<lparr>console := console s @ [LogMessage topic m]\<rparr>"]
    by simp
qed

section \<open>Devices that were never seen\<close>

lemma run_messages_unseen:
  assumes "D \<notin> set (map (\<lambda>(now, topic, payload). topic_device topic) msgs)"
  shows "map_of (iotDevices (run_messages parse msgs s)) D = map_of (iotDevices s) D
       \<and> map_of (sensorData (run_messages parse msgs s)) D = map_of (sensorData s) D"
  using assms
proof (induction msgs arbitrary: s)
  case Nil
  then show ?case by (simp add: run_messages_def)
next
  case (Cons msg msgs)
  obtain now topic payload where msg: "msg = (now, topic, payload)" by (cases msg)
  have ne: "topic_device topic \<noteq> D" using Cons.prems msg by auto
  have rest: "D \<notin> set (map (\<lambda>(now, topic, payload). topic_device topic) msgs)"
    using Cons.prems by simp
  have run: "run_messages parse (msg # msgs) s
      = run_messages parse msgs (on_message parse now topic payload s)"
    by (simp add: run_messages_def msg)
  show ?case
    unfolding run
    using Cons.IH [OF rest, of "on_message parse now topic payload s"]
      on_message_devices_other [OF ne] on_message_sensor_other [OF ne]
    by simp
qed

text \<open>
  C7. For every device key D that no inbound message has carried in its topic, in the
  state reached from the freshly loaded module by any sequence of broker messages:
  history(D, limit) is the empty sequence for every limit (omitted, an integer, or NaN),
  get(D) finds nothing, and the two routes answer 404 not-found and 200 with an empty
  list; all of these are ordinary results, no error is raised.
\<close>

theorem unknown_device_empty:
  assumes "D \<notin> set (map (\<lambda>(now, topic, payload). topic_device topic) msgs)"
  shows "getSensorHistory D limit (run_messages parse msgs initial_state) = []
       \<and> getDeviceStatus D (run_messages parse msgs initial_state) = None
       \<and> (D = Some dev \<and> dev \<noteq> [] \<longrightarrow>
            route_get_device dev (run_messages parse msgs initial_state)
              = Response 404 (ErrorBody (''Device with ID '' @ dev @ '' not found.''))
          \<and> route_get_history parseInt dev query (run_messages parse msgs initial_state)
              = Response 200 (HistoryBody []))"
proof -
  let ?s = "run_messages parse msgs initial_state"
  have d: "map_of (iotDevices ?s) D = None" and h: "map_of (sensorData ?s) D = None"
    using run_messages_unseen [OF assms, of parse initial_state]
    by (simp_all add: initial_state_def)
  have hist: "getSensorHistory D l ?s = []" for l
    using h by (simp add: getSensorHistory_def js_slice_def Let_def)
  have get: "getDeviceStatus D ?s = None"
    using d by (simp add: getDeviceStatus_def)
  show ?thesis
    using hist get by (auto simp add: route_get_device_def route_get_history_def Let_def)
qed

theorem unknown_device_empty_witness:
  "getSensorHistory (Some ''dev2'') (LimInt 10)
     (run_messages sample_parse [(1, ''iot/dev1/telemetry'', ''{}'')] initial_state) = []
   \<and> getDeviceStatus (Some ''dev2'')
        (run_messages sample_parse [(1, ''iot/dev1/telemetry'', ''{}'')] initial_state) = None
   \<and> getDeviceStatus (Some ''dev1'')
        (run_messages sample_parse [(1, ''iot/dev1/telemetry'', ''{}'')] initial_state) \<noteq> None"
proof -
  have unseen: "Some ''dev2'' \<notin> set (map (\<lambda>(now, topic, payload). topic_device topic)
      [(1::nat, ''iot/dev1/telemetry'', ''{}'')])"
    by (simp add: topic_device_def js_index_def)
  have seen: "getDeviceStatus (Some ''dev1'')
        (run_messages sample_parse [(1, ''iot/dev1/telemetry'', ''{}'')] initial_state) \<noteq> None"
    by (simp add: run_messages_def on_message_def sample_parse_def topic_device_def
          topic_kind_def js_index_def updateDevice_def storeSensorData_def emit_def
          getDeviceStatus_def initial_state_def Let_def)
  show ?thesis
    using unknown_device_empty [OF unseen, of "LimInt 10" sample_parse] seen by simp
qed

section \<open>Malformed payloads\<close>

lemma same_data_refl: "same_data s s"
  by (simp add: same_data_def)

lemma same_data_console: "same_data (s\<lparr>console := c\<rparr>) s"
  by (simp add: same_data_def)

lemma same_data_trans: "same_data s t \<Longrightarrow> same_data t u \<Longrightarrow> same_data s u"
  by (simp add: same_data_def)

lemma same_data_catch: "same_data s t \<Longrightarrow> same_data (catch_error e s) (catch_error e' t)"
  by (simp add: same_data_def catch_error_def)

lemma same_dataD: "same_data s t \<Longrightarrow> t = s\<lparr>console := console t\<rparr>"
  by (cases s; cases t) (simp add: same_data_def)

lemma updateDevice_console:
  "updateDevice now k m (s\<lparr>console := c\<rparr>) =
     (fst (updateDevice now k m s), (snd (updateDevice now k m s))\<lparr>console := c\<rparr>)"
  by (cases "map_of (iotDevices s) k")
     (simp_all add: updateDevice_def Let_def split: sum.splits)

lemma storeSensorData_console:
  "storeSensorData now k m (s\<lparr>console := c\<rparr>) = (storeSensorData now k m s)\<lparr>console := c\<rparr>"
  by (cases "map_of (sensorData s) k") (simp_all add: storeSensorData_def emit_def Let_def)

lemma updateDeviceStatus_console:
  "updateDeviceStatus k m (s\<lparr>console := c\<rparr>) =
     (fst (updateDeviceStatus k m s), (snd (updateDeviceStatus k m s))\<lparr>console := c\<rparr>)"
  by (simp add: updateDeviceStatus_def emit_def Let_def split: sum.splits option.splits)

lemma handleNFCScan_console:
  "same_data (handleNFCScan k m (s\<lparr>console := c\<rparr>)) (handleNFCScan k m s)"
  by (simp add: handleNFCScan_def emit_def same_data_def)

lemma same_data_updateDevice:
  assumes "same_data s t"
  shows "fst (updateDevice now k m s) = fst (updateDevice now k m t)
       \<and> same_data (snd (updateDevice now k m s)) (snd (updateDevice now k m t))"
proof -
  have "updateDevice now k m t = updateDevice now k m (s\<lparr>console := console t\<rparr>)"
    using same_dataD [OF assms] by simp
  then show ?thesis
    by (simp add: updateDevice_console same_data_def)
qed

lemma same_data_storeSensorData:
  assumes "same_data s t"
  shows "same_data (storeSensorData now k m s) (storeSensorData now k m t)"
proof -
  have "storeSensorData now k m t = storeSensorData now k m (s\<lparr>console := console t\<rparr>)"
    using same_dataD [OF assms] by simp
  then show ?thesis
    by (simp add: storeSensorData_console same_data_def)
qed

lemma same_data_updateDeviceStatus:
  assumes "same_data s t"
  shows "fst (updateDeviceStatus k m s) = fst (updateDeviceStatus k m t)
       \<and> same_data (snd (updateDeviceStatus k m s)) (snd (updateDeviceStatus k m t))"
proof -
  have "updateDeviceStatus k m t = updateDeviceStatus k m (s\<lparr>console := console t\<rparr>)"
    using same_dataD [OF assms] by simp
  then show ?thesis
    by (simp add: updateDeviceStatus_console same_data_def)
qed

lemma same_data_handleNFCScan:
  assumes "same_data s t"
  shows "same_data (handleNFCScan k m s) (handleNFCScan k m t)"
proof -
  have "handleNFCScan k m t = handleNFCScan k m (s\<lparr>console := console t\<rparr>)"
    using same_dataD [OF assms] by simp
  then show ?thesis
    using handleNFCScan_console [where k = k and m = m and s = s and c = "console t"]
    by (simp add: same_data_def)
qed

lemma same_data_on_message:
  assumes st: "same_data s t"
  shows "same_data (on_message parse now topic payload s) (on_message parse now topic payload t)"
proof (cases "parse payload")
  case None
  then show ?thesis using st by (simp add: on_message_def same_data_catch)
next
  case (Some m)
  let ?s1 = "s\<lparr>console := console s @ [LogMessage topic m]\<rparr>"
  let ?t1 = "t\<lparr>console := console t @ [LogMessage topic m]\<rparr>"
  have s1t1: "same_data ?s1 ?t1" using st by (simp add: same_data_def)
  obtain r s2 where us: "updateDevice now (topic_device topic) m ?s1 = (r, s2)"
    by (cases "updateDevice now (topic_device topic) m ?s1")
  obtain r' t2 where ut: "updateDevice now (topic_device topic) m ?t1 = (r', t2)"
    by (cases "updateDevice now (topic_device topic) m ?t1")
  have rr: "r' = r" and s2t2: "same_data s2 t2"
    using same_data_updateDevice [OF s1t1, of now "topic_device topic" m] us ut by simp_all
  obtain q s3 where vs: "updateDeviceStatus (topic_device topic) m s2 = (q, s3)"
    by (cases "updateDeviceStatus (topic_device topic) m s2")
  obtain q' t3 where vt: "updateDeviceStatus (topic_device topic) m t2 = (q', t3)"
    by (cases "updateDeviceStatus (topic_device topic) m t2")
  have qq: "q' = q" and s3t3: "same_data s3 t3"
    using same_data_updateDeviceStatus [OF s2t2, of "topic_device topic" m] vs vt by simp_all
  show ?thesis
    using Some us ut rr s2t2 vs vt qq s3t3
    by (cases r; cases q)
       (simp_all add: on_message_def Let_def same_data_catch same_data_storeSensorData
          same_data_handleNFCScan)
qed

lemma same_data_run_messages:
  "same_data s t \<Longrightarrow> same_data (run_messages parse msgs s) (run_messages parse msgs t)"
proof (induction msgs arbitrary: s t)
  case Nil
  then show ?case by (simp add: run_messages_def)
next
  case (Cons msg msgs)
  obtain now topic payload where msg: "msg = (now, topic, payload)" by (cases msg)
  have "same_data (on_message parse now topic payload s) (on_message parse now topic payload t)"
    using Cons.prems by (rule same_data_on_message)
  from Cons.IH [OF this] show ?case by (simp add: run_messages_def msg)
qed

text \<open>
  A payload text that \<^verbatim>\<open>JSON.parse\<close> rejects is discarded: the handler returns normally
  with one error line on the console, the data is unchanged, and every sequence of later
  messages leaves the same data as it would have left without the rejected message.
\<close>

lemma unparsable_text_discarded:
  assumes "parse payload = None"
  shows "same_data (on_message parse now topic payload s) s
       \<and> console (on_message parse now topic payload s) = console s @ [LogParseError SyntaxError]
       \<and> same_data (run_messages parse later (on_message parse now topic payload s))
                    (run_messages parse later s)"
proof -
  have eq: "on_message parse now topic payload s = catch_error SyntaxError s"
    using assms by (simp add: on_message_def)
  have a: "same_data (on_message parse now topic payload s) s"
    unfolding eq by (simp add: same_data_def catch_error_def)
  have b: "console (on_message parse now topic payload s) = console s @ [LogParseError SyntaxError]"
    unfolding eq by (simp add: catch_error_def)
  have c: "same_data (run_messages parse later (on_message parse now topic payload s))
                    (run_messages parse later s)"
    using a by (rule same_data_run_messages)
  show ?thesis using a b c by blast
qed

text \<open>
  C3. The claim holds that a message whose payload fails to parse leaves the device's
  registry record neither created nor modified. The payload \<^verbatim>\<open>null\<close> is no structured
  record; \<^verbatim>\<open>JSON.parse\<close> accepts it, and the handler ends in the same \<^verbatim>\<open>catch\<close> block,
  with the same console line, by the TypeError of the first property read. By then
  \<^verbatim>\<open>updateDevice\<close> has run its first statements: for the unknown device dev1 the record
  has been created, and for a device last seen at time 1 the last-seen time has become 2.
  No sample is stored and no event is emitted.
\<close>

theorem null_payload_touches_registry:
  "sample_parse ''null'' = Some JNull
   \<and> getDeviceStatus (Some ''dev1'') initial_state = None
   \<and> getDeviceStatus (Some ''dev1'')
       (on_message sample_parse 1 ''iot/dev1/telemetry'' ''null'' initial_state)
     = Some \<lparr>dev_id = Some ''dev1'', status = JStr ''online'', lastSeen = 1,
             batteryLevel = None, signalStrength = None, location = None, firmware = None\<rparr>
   \<and> console (on_message sample_parse 1 ''iot/dev1/telemetry'' ''null'' initial_state)
     = [LogMessage ''iot/dev1/telemetry'' JNull, LogParseError TypeError]
   \<and> emitted (on_message sample_parse 1 ''iot/dev1/telemetry'' ''null'' initial_state) = []
   \<and> getSensorHistory (Some ''dev1'') LimUndefined
       (on_message sample_parse 1 ''iot/dev1/telemetry'' ''null'' initial_state) = []
   \<and> \<not> same_data (on_message sample_parse 1 ''iot/dev1/telemetry'' ''null'' initial_state)
         initial_state
   \<and> getDeviceStatus (Some ''dev1'')
       (run_messages sample_parse [(1, ''iot/dev1/telemetry'', ''{}'')] initial_state)
     = Some \<lparr>dev_id = Some ''dev1'', status = JStr ''online'', lastSeen = 1,
             batteryLevel = None, signalStrength = None, location = None, firmware = None\<rparr>
   \<and> getDeviceStatus (Some ''dev1'')
       (run_messages sample_parse
          [(1, ''iot/dev1/telemetry'', ''{}''), (2, ''iot/dev1/telemetry'', ''null'')]
          initial_state)
     = Some \<lparr>dev_id = Some ''dev1'', status = JStr ''online'', lastSeen = 2,
             batteryLevel = None, signalStrength = None, location = None, firmware = None\<rparr>"
  by (simp add: run_messages_def on_message_def catch_error_def sample_parse_def
        topic_device_def topic_kind_def js_index_def updateDevice_def storeSensorData_def
        emit_def getDeviceStatus_def getSensorHistory_def js_slice_def same_data_def
        initial_state_def Let_def)

section \<open>Devices without a status message are online\<close>

lemma updateDeviceStatus_same_status:
  "online_or_absent k s \<Longrightarrow> k' \<noteq> k \<Longrightarrow> online_or_absent k (snd (updateDeviceStatus k' m s))"
  using updateDeviceStatus_other [of k k' m s]
  by (simp add: online_or_absent_def getDeviceStatus_def)

lemma on_message_keeps_online:
  assumes inv: "online_or_absent k s"
      and ns: "\<not> is_status_for k (now, topic, payload)"
  shows "online_or_absent k (on_message parse now topic payload s)"
proof (cases "topic_device topic = k")
  case False
  then show ?thesis
    using inv on_message_devices_other [of topic k parse now payload s]
    by (simp add: online_or_absent_def getDeviceStatus_def)
next
  case True
  then have kind: "topic_kind topic \<noteq> Some ''status''"
    using ns by (simp add: is_status_for_def)
  have upd: "online_or_absent k s2"
    if "updateDevice now (topic_device topic) m (s\<lparr>console := console s @ [LogMessage topic m]\<rparr>) = (r, s2)"
    for m r s2
  proof -
    have s2: "snd (updateDevice now k m (s\<lparr>console := console s @ [LogMessage topic m]\<rparr>)) = s2"
      using that True by simp
    obtain d' where "map_of (iotDevices s2) k = Some d'"
      "status d' = (case map_of (iotDevices s) k of None \<Rightarrow> JStr ''online'' | Some d \<Rightarrow> status d)"
      using updateDevice_status [of now k m "s\<lparr>console := console s @ [LogMessage topic m]\<rparr>"]
      unfolding s2 by auto
    then show ?thesis
      using inv by (simp add: online_or_absent_def getDeviceStatus_def split: option.splits)
  qed
  show ?thesis
  proof (cases rule: on_message_cases [where parse = parse and payload = payload
      and now = now and topic = topic and s = s])
    case unparsed
    then show ?thesis using inv
      by (simp add: online_or_absent_def getDeviceStatus_def catch_error_frame)
  next
    case (thrown m e s2)
    then show ?thesis using upd [of m "Some e" s2]
      by (simp add: online_or_absent_def getDeviceStatus_def catch_error_frame)
  next
    case (telemetry m s2)
    then show ?thesis using upd [of m None s2]
      by (simp add: online_or_absent_def getDeviceStatus_def storeSensorData_frame)
  next
    case (status m s2)
    then show ?thesis using kind by simp
  next
    case (nfc m s2)
    then show ?thesis using upd [of m None s2]
      by (simp add: online_or_absent_def getDeviceStatus_def handleNFCScan_frame)
  next
    case (other m s2)
    then show ?thesis using upd [of m None s2] by simp
  qed
qed

lemma run_messages_keeps_online:
  assumes "online_or_absent k s" "\<not> list_ex (is_status_for k) msgs"
  shows "online_or_absent k (run_messages parse msgs s)"
  using assms
proof (induction msgs arbitrary: s)
  case Nil
  then show ?case by (simp add: run_messages_def)
next
  case (Cons msg msgs)
  obtain now topic payload where msg: "msg = (now, topic, payload)" by (cases msg)
  have "online_or_absent k (on_message parse now topic payload s)"
    using Cons.prems msg by (simp add: on_message_keeps_online)
  then have "online_or_absent k (run_messages parse msgs (on_message parse now topic payload s))"
    using Cons.IH Cons.prems by simp
  then show ?case by (simp add: run_messages_def msg)
qed

lemma list_ex_take: "\<not> list_ex P xs \<Longrightarrow> \<not> list_ex P (take n xs)"
  by (auto simp add: list_ex_iff dest: in_set_takeD)

lemma health_online_count:
  "onlineDevices (getNetworkHealth t s) =
     length (filter (\<lambda>x. status x = JStr ''online'') (getAllDevices s))"
  by (simp add: getNetworkHealth_def getAllDevices_def Let_def)

lemma known_device_listed:
  "getDeviceStatus k s = Some d \<Longrightarrow> d \<in> set (getAllDevices s)"
  by (auto simp add: getDeviceStatus_def getAllDevices_def dest: map_of_SomeD intro: rev_image_eqI)

lemma status_message_without_status:
  assumes "topic_device topic = k" "topic_kind topic = Some ''status''"
      "parse payload = Some (JObj kvs)" "map_of kvs ''status'' = None"
  shows "\<exists>d. getDeviceStatus k (on_message parse now topic payload s) = Some d
           \<and> status d = JStr ''online''"
proof -
  let ?s1 = "s\<lparr>console := console s @ [LogMessage topic (JObj kvs)]\<rparr>"
  obtain r s2 where u: "updateDevice now k (JObj kvs) ?s1 = (r, s2)"
    by (cases "updateDevice now k (JObj kvs) ?s1")
  have r: "r = None"
    using u by (simp add: updateDevice_def Let_def split: if_splits option.splits)
  have s2: "snd (updateDevice now k (JObj kvs) ?s1) = s2"
    using u by simp
  obtain d2 where d2: "map_of (iotDevices s2) k = Some d2"
    using updateDevice_status [of now k "JObj kvs" ?s1] unfolding s2 by auto
  have "on_message parse now topic payload s
      = (case updateDeviceStatus k (JObj kvs) s2 of
            (Some e, s3) \<Rightarrow> catch_error e s3 | (None, s3) \<Rightarrow> s3)"
    using assms u r by (simp add: on_message_def)
  then show ?thesis
    using d2 assms(4)
    by (simp add: updateDeviceStatus_def Let_def js_or_else_def emit_def getDeviceStatus_def
          update_conv')
qed

text \<open>
  C10. For every device key D and every sequence of broker messages applied to the freshly
  loaded module in which no message arrives on D's status topic: after every prefix of
  the sequence, if the registry holds a record for D then its status is the text online,
  the record is among the devices that health() counts as online, and that count is
  positive. Moreover, in every state, a message on D's status topic whose payload is an
  object without a status member leaves D recorded with status online.
\<close>

theorem unreported_device_online:
  "(\<not> list_ex (is_status_for D) msgs
      \<and> getDeviceStatus D (run_messages parse (take n msgs) initial_state) = Some d
    \<longrightarrow> status d = JStr ''online''
      \<and> d \<in> set (filter (\<lambda>x. status x = JStr ''online'')
                   (getAllDevices (run_messages parse (take n msgs) initial_state)))
      \<and> onlineDevices (getNetworkHealth t (run_messages parse (take n msgs) initial_state))
          = length (filter (\<lambda>x. status x = JStr ''online'')
                     (getAllDevices (run_messages parse (take n msgs) initial_state)))
      \<and> 0 < onlineDevices (getNetworkHealth t (run_messages parse (take n msgs) initial_state)))
   \<and> (topic_device topic = D \<and> topic_kind topic = Some ''status''
      \<and> parse payload = Some (JObj kvs) \<and> map_of kvs ''status'' = None
    \<longrightarrow> (\<exists>d'. getDeviceStatus D (on_message parse now topic payload s) = Some d'
              \<and> status d' = JStr ''online''))"
proof (intro conjI impI)
  let ?s = "run_messages parse (take n msgs) initial_state"
  assume a: "\<not> list_ex (is_status_for D) msgs \<and> getDeviceStatus D ?s = Some d"
  have "online_or_absent D initial_state"
    by (simp add: online_or_absent_def getDeviceStatus_def initial_state_def)
  then have "online_or_absent D ?s"
    using a list_ex_take run_messages_keeps_online by blast
  then show on: "status d = JStr ''online''"
    using a by (simp add: online_or_absent_def)
  have "d \<in> set (getAllDevices ?s)"
    using a by (blast intro: known_device_listed)
  then show inl: "d \<in> set (filter (\<lambda>x. status x = JStr ''online'') (getAllDevices ?s))"
    using on by simp
  show "onlineDevices (getNetworkHealth t ?s)
          = length (filter (\<lambda>x. status x = JStr ''online'') (getAllDevices ?s))"
    by (rule health_online_count)
  show "0 < onlineDevices (getNetworkHealth t ?s)"
    using inl unfolding health_online_count by (cases "filter (\<lambda>x. status x = JStr ''online'') (getAllDevices ?s)") auto
next
  assume "topic_device topic = D \<and> topic_kind topic = Some ''status''
      \<and> parse payload = Some (JObj kvs) \<and> map_of kvs ''status'' = None"
  then show "\<exists>d'. getDeviceStatus D (on_message parse now topic payload s) = Some d'
              \<and> status d' = JStr ''online''"
    using status_message_without_status by blast
qed


theorem unreported_device_online_witness:
  "\<not> list_ex (is_status_for (Some ''dev1'')) [(1, ''iot/dev1/telemetry'', ''{}'')]
   \<and> getDeviceStatus (Some ''dev1'')
       (run_messages sample_parse (take 1 [(1, ''iot/dev1/telemetry'', ''{}'')]) initial_state)
     = Some \<lparr>dev_id = Some ''dev1'', status = JStr ''online'', lastSeen = 1,
             batteryLevel = None, signalStrength = None, location = None, firmware = None\<rparr>
   \<and> 0 < onlineDevices (getNetworkHealth 5
           (run_messages sample_parse (take 1 [(1, ''iot/dev1/telemetry'', ''{}'')]) initial_state))
   \<and> topic_device ''iot/dev1/status'' = Some ''dev1''
   \<and> topic_kind ''iot/dev1/status'' = Some ''status''
   \<and> sample_parse ''{}'' = Some (JObj [])
   \<and> (\<exists>d'. getDeviceStatus (Some ''dev1'')
              (on_message sample_parse 2 ''iot/dev1/status'' ''{}'' initial_state) = Some d'
          \<and> status d' = JStr ''online'')"
proof -
  let ?msgs = "[(1::nat, ''iot/dev1/telemetry'', ''{}'')]"
  let ?d = "\<lparr>dev_id = Some ''dev1'', status = JStr ''online'', lastSeen = 1,
             batteryLevel = None, signalStrength = None, location = None, firmware = None\<rparr>"
  have h1: "\<not> list_ex (is_status_for (Some ''dev1'')) ?msgs"
    by (simp add: is_status_for_def topic_kind_def js_index_def)
  have h2: "getDeviceStatus (Some ''dev1'')
       (run_messages sample_parse (take 1 ?msgs) initial_state) = Some ?d"
    by (simp add: run_messages_def on_message_def sample_parse_def topic_device_def
          topic_kind_def js_index_def updateDevice_def storeSensorData_def emit_def
          getDeviceStatus_def initial_state_def Let_def)
  have h3: "topic_device ''iot/dev1/status'' = Some ''dev1''"
    "topic_kind ''iot/dev1/status'' = Some ''status''"
    by (simp_all add: topic_device_def topic_kind_def js_index_def)
  have h4: "sample_parse ''{}'' = Some (JObj [])" "map_of ([] :: (string \<times> json) list) ''status'' = None"
    by (simp_all add: sample_parse_def)
  note w = unreported_device_online [where D = "Some ''dev1''" and msgs = ?msgs
      and parse = sample_parse and n = 1 and d = ?d and t = 5
      and topic = "''iot/dev1/status''" and payload = "''{}''" and kvs = "[]"
      and now = 2 and s = initial_state]
  show ?thesis
    using w h1 h2 h3 h4 by blast
qed

section \<open>Listeners of closed observer streams\<close>

lemma remove_last_distinct: "distinct xs \<Longrightarrow> remove_last x xs = remove1 x xs"
  by (simp add: remove_last_def distinct_remove1_removeAll removeAll_filter_not_eq rev_filter)

lemma remove1_listener:
  "distinct cs \<Longrightarrow>
   remove_last (SseListener c name) (map (\<lambda>c. SseListener c name) cs)
     = map (\<lambda>c. SseListener c name) (remove1 c cs)"
proof -
  assume d: "distinct cs"
  have inj: "inj (\<lambda>c. SseListener c name)" by (simp add: inj_def)
  have "distinct (map (\<lambda>c. SseListener c name) cs)"
    using d inj by (simp add: distinct_map inj_on_def)
  then have "remove_last (SseListener c name) (map (\<lambda>c. SseListener c name) cs)
      = filter (\<lambda>y. SseListener c name \<noteq> y) (map (\<lambda>c. SseListener c name) cs)"
    by (simp add: remove_last_distinct distinct_remove1_removeAll removeAll_filter_not_eq)
  also have "\<dots> = map (\<lambda>c. SseListener c name) (filter (\<lambda>z. c \<noteq> z) cs)"
    by (simp add: filter_map o_def)
  also have "\<dots> = map (\<lambda>c. SseListener c name) (remove1 c cs)"
    using d by (simp add: distinct_remove1_removeAll removeAll_filter_not_eq)
  finally show ?thesis .
qed

lemma open_stream_inv: "stream_inv st \<Longrightarrow> stream_inv (open_stream st)"
  by (auto simp add: stream_inv_def listeners_match_def open_stream_def Let_def add_listener_def
        list_all_iff)

lemma on_close_inv: "stream_inv st \<Longrightarrow> stream_inv (on_close c st)"
  by (auto simp add: stream_inv_def listeners_match_def on_close_def Let_def removeListener_def
        remove1_listener list_all_iff dest: notin_set_remove1)

lemma broker_inv:
  "stream_inv st \<Longrightarrow> stream_inv (st\<lparr>bus := on_message parse now topic payload (bus st)\<rparr>)"
  by (simp add: stream_inv_def listeners_match_def on_message_listeners)

lemma stream_step_inv: "stream_inv st \<Longrightarrow> stream_inv (stream_step parse st op)"
  by (cases op) (simp_all add: open_stream_inv on_close_inv broker_inv)

lemma run_streams_inv: "stream_inv st \<Longrightarrow> stream_inv (run_streams parse ops st)"
proof (induction ops arbitrary: st)
  case Nil
  then show ?case by (simp add: run_streams_def)
next
  case (Cons op ops)
  have "stream_inv (stream_step parse st op)" using Cons.prems by (rule stream_step_inv)
  from Cons.IH [OF this] show ?case by (simp add: run_streams_def)
qed

lemma initial_streams_inv: "stream_inv initial_streams"
  by (simp add: stream_inv_def listeners_match_def initial_streams_def initial_state_def)

lemma reachable_inv: "stream_inv (run_streams parse ops initial_streams)"
  using initial_streams_inv by (rule run_streams_inv)

lemma closed_listener_gone:
  assumes "stream_inv st" "name \<in> {''telemetry'', ''status'', ''nfc_scan''}"
  shows "SseListener c name \<notin> set (listeners (bus (stream_step parse st (Disconnect c))) name)"
proof -
  let ?st' = "stream_step parse st (Disconnect c)"
  have inv': "stream_inv ?st'" using assms(1) by (rule stream_step_inv)
  have closed: "c \<notin> set (open_requests ?st')"
    using assms(1) by (simp add: on_close_def Let_def stream_inv_def)
  have "listeners (bus ?st') name = map (\<lambda>c. SseListener c name) (open_requests ?st')"
    using inv' assms(2) by (auto simp add: stream_inv_def listeners_match_def)
  then show ?thesis using closed by auto
qed

lemma count_open:
  assumes "stream_inv st" "name \<in> {''telemetry'', ''status'', ''nfc_scan''}"
  shows "listenerCount name (bus st) = length (open_requests st)"
  using assms by (auto simp add: stream_inv_def listeners_match_def listenerCount_def)

text \<open>
  C5. In every state the server reaches from startup through observers connecting,
  observer connections closing and broker messages arriving, in any order: each of the
  three categories telemetry, status and nfc_scan has exactly as many listeners as there
  are open observer streams; once the connection of observer c has closed, none of c's
  three listeners is registered any more; hence when no observer stream is open the
  listener count of each of the three categories is 0.
\<close>

theorem observer_listeners_removed:
  "listenerCount ''telemetry'' (bus (run_streams parse ops initial_streams))
     = length (open_requests (run_streams parse ops initial_streams))
   \<and> listenerCount ''status'' (bus (run_streams parse ops initial_streams))
     = length (open_requests (run_streams parse ops initial_streams))
   \<and> listenerCount ''nfc_scan'' (bus (run_streams parse ops initial_streams))
     = length (open_requests (run_streams parse ops initial_streams))
   \<and> SseListener c ''telemetry'' \<notin> set (listeners (bus (stream_step parse
         (run_streams parse ops initial_streams) (Disconnect c))) ''telemetry'')
   \<and> SseListener c ''status'' \<notin> set (listeners (bus (stream_step parse
         (run_streams parse ops initial_streams) (Disconnect c))) ''status'')
   \<and> SseListener c ''nfc_scan'' \<notin> set (listeners (bus (stream_step parse
         (run_streams parse ops initial_streams) (Disconnect c))) ''nfc_scan'')
   \<and> (open_requests (run_streams parse ops initial_streams) = [] \<longrightarrow>
         listenerCount ''telemetry'' (bus (run_streams parse ops initial_streams)) = 0
       \<and> listenerCount ''status'' (bus (run_streams parse ops initial_streams)) = 0
       \<and> listenerCount ''nfc_scan'' (bus (run_streams parse ops initial_streams)) = 0)"
proof -
  let ?st = "run_streams parse ops initial_streams"
  have inv: "stream_inv ?st" by (rule reachable_inv)
  have n1: "listenerCount ''telemetry'' (bus ?st) = length (open_requests ?st)"
    and n2: "listenerCount ''status'' (bus ?st) = length (open_requests ?st)"
    and n3: "listenerCount ''nfc_scan'' (bus ?st) = length (open_requests ?st)"
    using inv by (simp_all add: count_open)
  have g1: "SseListener c ''telemetry'' \<notin>
      set (listeners (bus (stream_step parse ?st (Disconnect c))) ''telemetry'')"
    by (rule closed_listener_gone [OF inv]) simp
  have g2: "SseListener c ''status'' \<notin>
      set (listeners (bus (stream_step parse ?st (Disconnect c))) ''status'')"
    by (rule closed_listener_gone [OF inv]) simp
  have g3: "SseListener c ''nfc_scan'' \<notin>
      set (listeners (bus (stream_step parse ?st (Disconnect c))) ''nfc_scan'')"
    by (rule closed_listener_gone [OF inv]) simp
  have z: "open_requests ?st = [] \<longrightarrow>
         listenerCount ''telemetry'' (bus ?st) = 0
       \<and> listenerCount ''status'' (bus ?st) = 0
       \<and> listenerCount ''nfc_scan'' (bus ?st) = 0"
    using n1 n2 n3 by simp
  show ?thesis
    using n1 n2 n3 g1 g2 g3 z by blast
qed

theorem observer_listeners_removed_witness:
  "open_requests (run_streams sample_parse
       [Connect, Broker 1 ''iot/dev1/telemetry'' ''{}'', Connect, Disconnect 0, Disconnect 1]
       initial_streams) = []
   \<and> listenerCount ''telemetry'' (bus (run_streams sample_parse
       [Connect, Broker 1 ''iot/dev1/telemetry'' ''{}'', Connect, Disconnect 0, Disconnect 1]
       initial_streams)) = 0
   \<and> listenerCount ''status'' (bus (run_streams sample_parse
       [Connect, Broker 1 ''iot/dev1/telemetry'' ''{}'', Connect, Disconnect 0, Disconnect 1]
       initial_streams)) = 0
   \<and> listenerCount ''nfc_scan'' (bus (run_streams sample_parse
       [Connect, Broker 1 ''iot/dev1/telemetry'' ''{}'', Connect, Disconnect 0, Disconnect 1]
       initial_streams)) = 0
   \<and> listenerCount ''telemetry'' (bus (run_streams sample_parse [Connect, Connect] initial_streams)) = 2"
proof -
  have none: "open_requests (run_streams sample_parse
       [Connect, Broker 1 ''iot/dev1/telemetry'' ''{}'', Connect, Disconnect 0, Disconnect 1]
       initial_streams) = []"
    by (simp add: run_streams_def open_stream_def on_close_def initial_streams_def Let_def)
  have two: "open_requests (run_streams sample_parse [Connect, Connect] initial_streams) = [0, 1]"
    by (simp add: run_streams_def open_stream_def initial_streams_def Let_def)
  show ?thesis
    using none two
      observer_listeners_removed [of sample_parse
        "[Connect, Broker 1 ''iot/dev1/telemetry'' ''{}'', Connect, Disconnect 0, Disconnect 1]"]
      observer_listeners_removed [of sample_parse "[Connect, Connect]"]
    by simp
qed

section \<open>Battery level zero\<close>

text \<open>
  C6. The claim holds that a supplied battery value of 0 is recorded. At the message
  \<^verbatim>\<open>{battery: 0}\<close> the code does otherwise: for a device not yet known the record is
  created without a battery level, and for a device whose recorded level is 50 the level
  stays 50; only the last-seen time is refreshed. A non-zero level such as 7 is recorded.
\<close>

theorem battery_zero_not_recorded:
  "updateDevice 1 (Some ''dev1'') (JObj [(''battery'', JNum 0)]) initial_state =
     (None, initial_state\<lparr>iotDevices :=
        [(Some ''dev1'', \<lparr>dev_id = Some ''dev1'', status = JStr ''online'', lastSeen = 1,
            batteryLevel = None, signalStrength = None, location = None, firmware = None\<rparr>)]\<rparr>)
   \<and> updateDevice 2 (Some ''dev1'') (JObj [(''battery'', JNum 0)])
       (initial_state\<lparr>iotDevices :=
        [(Some ''dev1'', \<lparr>dev_id = Some ''dev1'', status = JStr ''online'', lastSeen = 1,
            batteryLevel = Some (JNum 50), signalStrength = None, location = None,
            firmware = None\<rparr>)]\<rparr>) =
     (None, initial_state\<lparr>iotDevices :=
        [(Some ''dev1'', \<lparr>dev_id = Some ''dev1'', status = JStr ''online'', lastSeen = 2,
            batteryLevel = Some (JNum 50), signalStrength = None, location = None,
            firmware = None\<rparr>)]\<rparr>)
   \<and> updateDevice 1 (Some ''dev1'') (JObj [(''battery'', JNum 7)]) initial_state =
     (None, initial_state\<lparr>iotDevices :=
        [(Some ''dev1'', \<lparr>dev_id = Some ''dev1'', status = JStr ''online'', lastSeen = 1,
            batteryLevel = Some (JNum 7), signalStrength = None, location = None,
            firmware = None\<rparr>)]\<rparr>)"
  by (simp add: updateDevice_def initial_state_def Let_def)

section \<open>Ledger sessions\<close>

text \<open>
  Once \<^verbatim>\<open>connectToGateway\<close> has returned its pair, the \<^verbatim>\<open>finally\<close> block closes the
  session whatever the invocation does.
\<close>

lemma connect_appends:
  "connectToGateway env s = (Inr g, s1) \<Longrightarrow>
     g = length (gateways s) \<and> gateways s1 = gateways s @ [GwConnected]"
  by (auto simp add: connectToGateway_def Let_def list_update_append split: option.splits)

lemma session_closed_after_connect:
  assumes "connectToGateway env s = (Inr g, s1)"
  shows "open_sessions (snd (submitTransaction env f args s)) = open_sessions s
       \<and> open_sessions (snd (evaluateTransaction env f args s)) = open_sessions s"
  using assms connect_appends [OF assms]
  by (simp add: submitTransaction_def evaluateTransaction_def finally_disconnect_def
        disconnect_def log_ledger_def open_sessions_def list_update_append Let_def
        split: sum.splits)

text \<open>
  C2. The claim holds that the session opened for a call is closed on every exit path. When
  the gateway has connected and resolving the channel then throws, the error leaves
  \<^verbatim>\<open>connectToGateway\<close> before the caller's variable is assigned: both \<^verbatim>\<open>submitTransaction\<close>
  and \<^verbatim>\<open>evaluateTransaction\<close> rethrow the error and leave the connected gateway open.
\<close>

theorem session_left_open:
  "submitTransaction network_failure_env functionName args no_sessions =
     (Inl (LibraryError ''channel not found''),
      \<lparr>gateways = [GwConnected],
        ledger_console = [LogFailed (LibraryError ''channel not found'')]\<rparr>)
   \<and> evaluateTransaction network_failure_env functionName args no_sessions =
     (Inl (LibraryError ''channel not found''),
      \<lparr>gateways = [GwConnected],
        ledger_console = [LogFailed (LibraryError ''channel not found'')]\<rparr>)
   \<and> open_sessions no_sessions = 0
   \<and> open_sessions (snd (submitTransaction network_failure_env functionName args no_sessions)) = 1
   \<and> open_sessions (snd (evaluateTransaction network_failure_env functionName args no_sessions)) = 1"
  by (simp add: submitTransaction_def evaluateTransaction_def connectToGateway_def
        network_failure_env_def no_sessions_def finally_disconnect_def log_ledger_def
        open_sessions_def Let_def)

section \<open>Provisioning the application identity\<close>

lemma gateway_unbound: "resolve_name ''gateway'' = Some (ReferenceError ''gateway'')"
  by (simp add: resolve_name_def names_in_scope_def)

text \<open>
  C8. The claim holds that an absent application identity is registered, enrolled and
  stored with the administrator's context. Whenever the profile, the authority client and
  the wallet are available, the administrative identity is present and the application
  identity is absent, the code reads the unbound name \<^verbatim>\<open>gateway\<close>: startup ends with exit
  code 1, the certificate authority was never called and the wallet is unchanged, however
  willing the authority is. The process does not go on to listen.
\<close>

theorem app_identity_never_provisioned:
  assumes "load_profile env = None" "make_ca_client env = None" "open_wallet env = None"
      and "map_of w ''admin'' = Some adminIdentity" "map_of w org1UserId = None"
  shows "initializeBlockchain env w =
           \<lparr>outcome = ProcessExit 1, wallet_after = w, ca_calls = []\<rparr>
       \<and> startServer None None env w = Terminated 1"
  using assms
  by (simp add: initializeBlockchain_def provision_admin_def provision_user_def
        gateway_unbound startServer_def)

theorem app_identity_never_provisioned_witness:
  "map_of admin_only_wallet ''admin'' \<noteq> None \<and> map_of admin_only_wallet org1UserId = None
   \<and> ca_register accepting_env org1UserId = Inr ''secret-appUser''
   \<and> initializeBlockchain accepting_env admin_only_wallet =
        \<lparr>outcome = ProcessExit 1, wallet_after = admin_only_wallet, ca_calls = []\<rparr>
   \<and> startServer None None accepting_env admin_only_wallet = Terminated 1"
proof -
  have h: "load_profile accepting_env = None" "make_ca_client accepting_env = None"
      "open_wallet accepting_env = None"
    by (simp_all add: accepting_env_def)
  have a: "map_of admin_only_wallet ''admin'' =
      Some \<lparr>certificate = ''cert-admin'', privateKey = ''key-admin'',
            id_mspId = ''Org1MSP'', id_type = ''X.509''\<rparr>"
    by (simp add: admin_only_wallet_def)
  have u: "map_of admin_only_wallet org1UserId = None"
    by (simp add: admin_only_wallet_def org1UserId_def)
  have r: "ca_register accepting_env org1UserId = Inr ''secret-appUser''"
    by (simp add: accepting_env_def org1UserId_def)
  show ?thesis
    using app_identity_never_provisioned [OF h a u] a u r by simp
qed

section \<open>Commands while the broker connection is down\<close>

text \<open>
  C4 (as amended). The dispatcher never looks at the state of the broker connection. For
  every behaviour of the broker client's publish and every client state, connected or
  not: if publish returns, \<^verbatim>\<open>sendCommandToDevice\<close> returns normally, an error that publish
  hands to the callback is only written to the console, and the route answers 202; the
  caller sees a failure (status 500) exactly when publish itself throws, or, with a
  TypeError, when the client was never created.
\<close>

theorem command_sent_regardless:
  "sendCommandToDevice publish None deviceId command payload = Inl TypeError
   \<and> (publish client (''iot/'' @ deviceId @ ''/command'') (command_envelope command payload)
         = Inr (client', err)
      \<longrightarrow> sendCommandToDevice publish (Some client) deviceId command payload =
            Inr (client',
                 case err of
                   Some e \<Rightarrow> CommandFailed (''iot/'' @ deviceId @ ''/command'') e
                 | None \<Rightarrow> CommandPublished (''iot/'' @ deviceId @ ''/command'')
                             (command_envelope command payload))
        \<and> (deviceId \<noteq> [] \<longrightarrow>
             route_post_command publish (Some client) deviceId
               (Some (JStr command)) (Some (JObj payload)) =
             (Response 202
                (MessageBody (''Command '' @ command @ '' sent to device '' @ deviceId @ ''.'')),
              Some client')))
   \<and> (publish client (''iot/'' @ deviceId @ ''/command'') (command_envelope command payload)
         = Inl e
      \<longrightarrow> sendCommandToDevice publish (Some client) deviceId command payload = Inl e
        \<and> (deviceId \<noteq> [] \<longrightarrow>
             route_post_command publish (Some client) deviceId
               (Some (JStr command)) (Some (JObj payload)) =
             (Response 500 (ErrorBody ''Failed to send command''), Some client)))"
  by (auto simp add: sendCommandToDevice_def route_post_command_def Let_def
        split: option.splits)

theorem command_sent_regardless_witness:
  "strict_publish disconnected_client (''iot/'' @ ''dev1'' @ ''/command'')
       (command_envelope ''reboot'' [])
     = Inr (disconnected_client, Some (LibraryError ''client disconnected''))
   \<and> sendCommandToDevice strict_publish (Some disconnected_client) ''dev1'' ''reboot'' [] =
       Inr (disconnected_client,
            CommandFailed (''iot/'' @ ''dev1'' @ ''/command'') (LibraryError ''client disconnected''))
   \<and> route_post_command strict_publish (Some disconnected_client) ''dev1''
        (Some (JStr ''reboot'')) (Some (JObj [])) =
       (Response 202 (MessageBody (''Command '' @ ''reboot'' @ '' sent to device '' @ ''dev1'' @ ''.'')),
        Some disconnected_client)"
proof -
  have p: "strict_publish disconnected_client (''iot/'' @ ''dev1'' @ ''/command'')
       (command_envelope ''reboot'' [])
     = Inr (disconnected_client, Some (LibraryError ''client disconnected''))"
    by (simp add: strict_publish_def disconnected_client_def)
  have ne: "''dev1'' \<noteq> []" by simp
  show ?thesis
    using p ne command_sent_regardless [where publish = strict_publish
        and client = disconnected_client and deviceId = "''dev1''" and command = "''reboot''"
        and payload = "[]" and client' = disconnected_client
        and err = "Some (LibraryError ''client disconnected'')"]
    by simp
qed

text \<open>
  The claim as stated fails: with a broker client that is not connected, and that reports
  the failure to the callback at once, the call returns normally and the route answers 202.
\<close>

theorem command_while_disconnected_counterexample:
  "connected disconnected_client = False
   \<and> \<not> isl (sendCommandToDevice strict_publish (Some disconnected_client) ''dev1'' ''reboot'' [])
   \<and> sendCommandToDevice strict_publish (Some disconnected_client) ''dev1'' ''reboot'' [] =
       Inr (disconnected_client,
            CommandFailed ''iot/dev1/command'' (LibraryError ''client disconnected''))
   \<and> route_post_command strict_publish (Some disconnected_client) ''dev1''
        (Some (JStr ''reboot'')) (Some (JObj [])) =
       (Response 202 (MessageBody ''Command reboot sent to device dev1.''),
        Some disconnected_client)"
  by (simp add: sendCommandToDevice_def route_post_command_def strict_publish_def
        disconnected_client_def command_envelope_def Let_def)

end
